theory Spec2Isabelle
  imports Main
begin

section \<open>Python values, exceptions and sequence primitives\<close>

text \<open>
  The exceptions that the modelled code raises or lets through. \<open>InvalidURL\<close> is
  asyncpraw's own exception, \<open>Conflict\<close> is the transport's 409 error, and
  \<open>TransportError\<close> stands for every other exception of the transport, told apart by a
  number. The remaining constructors are Python's builtin exceptions.
\<close>

datatype error =
    TypeError
  | ValueError
  | IndexError
  | KeyError
  | AttributeError
  | NotImplementedError
  | InvalidURL
  | Conflict
  | TransportError nat

text \<open>Sequencing of computations that may raise: the first exception wins.\<close>

definition bindE :: "error + 'a \<Rightarrow> ('a \<Rightarrow> error + 'b) \<Rightarrow> error + 'b" where
  "bindE m f = (case m of Inl e \<Rightarrow> Inl e | Inr a \<Rightarrow> f a)"

text \<open>
  \<open>xs[i]\<close> on a list: a negative index counts from the end, and an index out of range
  raises \<open>IndexError\<close>.
\<close>

definition py_get :: "'a list \<Rightarrow> int \<Rightarrow> error + 'a" where
  "py_get xs i =
     (if 0 \<le> i \<and> i < int (length xs) then Inr (xs ! nat i)
      else if i < 0 \<and> 0 \<le> int (length xs) + i then Inr (xs ! nat (int (length xs) + i))
      else Inl IndexError)"

text \<open>\<open>xs.index(x)\<close>: the position of the first occurrence, \<open>ValueError\<close> when absent.\<close>

fun py_index :: "'a list \<Rightarrow> 'a \<Rightarrow> error + nat" where
  "py_index [] x = Inl ValueError"
| "py_index (y # ys) x =
     (if y = x then Inr 0 else bindE (py_index ys x) (\<lambda>i. Inr (Suc i)))"

text \<open>
  \<open>xs[i:j]\<close>: both bounds are clipped to the list, a negative bound counts from the end.
\<close>

definition py_slice :: "'a list \<Rightarrow> int \<Rightarrow> int \<Rightarrow> 'a list" where
  "py_slice xs i j =
     (let n = int (length xs);
          lo = (if i < 0 then max 0 (n + i) else min i n);
          hi = (if j < 0 then max 0 (n + j) else min j n)
      in take (nat (hi - lo)) (drop (nat lo) xs))"

text \<open>
  The elements of \<open>range(start, stop, step)\<close> for a step other than zero (a zero step
  raises \<open>ValueError\<close>, which the caller of \<open>py_range\<close> models).
\<close>

function py_range :: "int \<Rightarrow> int \<Rightarrow> int \<Rightarrow> int list" where
  "py_range start stop step =
     (if 0 < step \<and> start < stop then start # py_range (start + step) stop step
      else if step < 0 \<and> stop < start then start # py_range (start + step) stop step
      else [])"
  by pat_completeness auto
termination
  by (relation "measure (\<lambda>(start, stop, step).
        nat (if 0 < step then stop - start else start - stop))") auto

declare py_range.simps [simp del]

text \<open>\<open>sep.join(xs)\<close>.\<close>

fun join :: "string \<Rightarrow> string list \<Rightarrow> string" where
  "join sep [] = []"
| "join sep [x] = x"
| "join sep (x # y # ys) = x @ sep @ join sep (y # ys)"

text \<open>
  \<open>str.isalnum\<close>. A \<open>char\<close> stands for a code point below 256; the table is Python's
  for that range (ASCII digits and letters, and the Latin-1 letters and numeric
  characters). The empty string is not alphanumeric.
\<close>

definition isalnum_char :: "char \<Rightarrow> bool" where
  "isalnum_char c =
     (let n = (of_char c :: nat)
      in (48 \<le> n \<and> n \<le> 57) \<or> (65 \<le> n \<and> n \<le> 90) \<or> (97 \<le> n \<and> n \<le> 122)
         \<or> n = 170 \<or> n = 178 \<or> n = 179 \<or> n = 181 \<or> n = 185 \<or> n = 186
         \<or> (188 \<le> n \<and> n \<le> 190) \<or> (192 \<le> n \<and> n \<le> 214)
         \<or> (216 \<le> n \<and> n \<le> 246) \<or> (248 \<le> n \<and> n \<le> 255))"

definition isalnum :: "string \<Rightarrow> bool" where
  "isalnum s = (s \<noteq> [] \<and> list_all isalnum_char s)"

section \<open>The batch chunker of Submission\<close>

text \<open>
  \<open>Submission._chunk(chunk_size, other_submissions)\<close>. The \<open>fullname\<close> property is not
  part of the sources at hand, so the model takes the fullnames already evaluated:
  \<open>fullname\<close> is \<open>self.fullname\<close> and \<open>other_submissions\<close> holds \<open>x.fullname\<close> for every
  \<open>x\<close> of the argument (\<open>None\<close> when the argument is \<open>None\<close>). \<open>chunk_groups\<close> is the list
  of slices the generator takes, \<open>Submission_chunk\<close> the list of strings it yields.
  The loop steps by \<open>chunk_size\<close> and slices \<open>position : position + 50\<close>, as the source
  does.
\<close>

definition all_submissions :: "string \<Rightarrow> string list option \<Rightarrow> string list" where
  "all_submissions fullname other_submissions =
     [fullname] @ (case other_submissions of None \<Rightarrow> [] | Some xs \<Rightarrow> xs)"

definition chunk_groups :: "int \<Rightarrow> string \<Rightarrow> string list option \<Rightarrow> error + string list list" where
  "chunk_groups chunk_size fullname other_submissions =
     (let alls = all_submissions fullname other_submissions
      in if chunk_size = 0 then Inl ValueError
         else Inr (map (\<lambda>position. py_slice alls position (position + 50))
                       (py_range 0 (int (length alls)) chunk_size)))"

definition Submission_chunk :: "int \<Rightarrow> string \<Rightarrow> string list option \<Rightarrow> error + string list" where
  "Submission_chunk chunk_size fullname other_submissions =
     bindE (chunk_groups chunk_size fullname other_submissions)
           (\<lambda>groups. Inr (map (join '','') groups))"

section \<open>The identifier of a submission URL\<close>

text \<open>
  \<open>Submission.id_from_url(url)\<close>. \<open>RedditBase._url_parts\<close> is not part of the sources at
  hand; it is the parameter \<open>url_parts\<close>, which returns the path segments of the URL or
  raises. The branches and their order are the source's.
\<close>

definition id_from_url :: "(string \<Rightarrow> error + string list) \<Rightarrow> string \<Rightarrow> error + string" where
  "id_from_url url_parts url =
     bindE (url_parts url) (\<lambda>parts.
     bindE
       (if ''comments'' \<notin> set parts \<and> ''gallery'' \<notin> set parts then
          bindE (py_get parts (- 1)) (\<lambda>submission_id.
            if ''r'' \<in> set parts then Inl InvalidURL else Inr submission_id)
        else if ''gallery'' \<in> set parts then
          bindE (py_index parts ''gallery'') (\<lambda>i. py_get parts (int i + 1))
        else
          bindE (py_get parts (- 1)) (\<lambda>last_part.
            if last_part = ''comments'' then Inl InvalidURL
            else bindE (py_index parts ''comments'') (\<lambda>i. py_get parts (int i + 1))))
       (\<lambda>submission_id.
          if \<not> isalnum submission_id then Inl InvalidURL else Inr submission_id))"

section \<open>Values, requests and effects\<close>

text \<open>
  The Python values that occur as attribute values and in the records of the wire
  format. A \<open>PDict\<close> holds the items of a dict in insertion order; its keys are strings
  and distinct. \<open>Reddit\<close> is the client object, of which the model keeps the one
  configuration value the submission reads, \<open>config.warn_comment_sort\<close>.

  Modelled from the spec: the classes Redditor, Subreddit, PollData and CommentForest are
  not part of the sources at hand. An entity reference is a minimal, unfetched stand-in
  built purely from an inline record fragment, so \<open>Redditor\<close>, \<open>Subreddit\<close> and
  \<open>PollData\<close> carry the raw value they were built from; a comment forest is the ordered
  sequence of its root-level nodes, so \<open>CommentForest\<close> carries that sequence (its back
  reference to the submission is not kept).
\<close>

datatype pyval =
    PNone
  | PBool bool
  | PInt int
  | PStr string
  | PList "pyval list"
  | PDict "(string \<times> pyval) list"
  | Reddit bool
  | Redditor pyval
  | Subreddit pyval
  | PollData pyval
  | CommentForest "pyval list"

text \<open>Python's truth value of an object; an instance of a class is true.\<close>

fun truthy :: "pyval \<Rightarrow> bool" where
  "truthy PNone = False"
| "truthy (PBool b) = b"
| "truthy (PInt i) = (i \<noteq> 0)"
| "truthy (PStr s) = (s \<noteq> [])"
| "truthy (PList xs) = (xs \<noteq> [])"
| "truthy (PDict items) = (items \<noteq> [])"
| "truthy _ = True"

text \<open>\<open>v[key]\<close> with a string key, \<open>v[i]\<close> with an integer index.\<close>

fun subscript_key :: "pyval \<Rightarrow> string \<Rightarrow> error + pyval" where
  "subscript_key (PDict items) key =
     (case map_of items key of None \<Rightarrow> Inl KeyError | Some v \<Rightarrow> Inr v)"
| "subscript_key _ key = Inl TypeError"

fun subscript_int :: "pyval \<Rightarrow> int \<Rightarrow> error + pyval" where
  "subscript_int (PList xs) i = py_get xs i"
| "subscript_int (PStr s) i = bindE (py_get s i) (\<lambda>c. Inr (PStr [c]))"
| "subscript_int (PDict items) i = Inl KeyError"
| "subscript_int _ i = Inl TypeError"

text \<open>
  \<open>a, b = v\<close>: iterating a list gives its elements, a dict its keys, a string its
  characters; a wrong number of values raises \<open>ValueError\<close>, a value that cannot be
  iterated \<open>TypeError\<close>.
\<close>

fun unpack2 :: "pyval \<Rightarrow> error + pyval \<times> pyval" where
  "unpack2 (PList xs) = (case xs of [a, b] \<Rightarrow> Inr (a, b) | _ \<Rightarrow> Inl ValueError)"
| "unpack2 (PDict items) =
     (case items of [(a, _), (b, _)] \<Rightarrow> Inr (PStr a, PStr b) | _ \<Rightarrow> Inl ValueError)"
| "unpack2 (PStr s) = (case s of [a, b] \<Rightarrow> Inr (PStr [a], PStr [b]) | _ \<Rightarrow> Inl ValueError)"
| "unpack2 _ = Inl TypeError"

text \<open>
  A request to the transport, and what an operation leaves behind besides its result:
  the requests issued so far and the warnings emitted so far.
\<close>

record request =
  req_method :: string
  req_path :: string
  req_params :: "(string \<times> pyval) list"
  req_data :: "(string \<times> pyval) list"

record world =
  sent :: "request list"
  warnings :: "string list"

text \<open>
  What the modelled code uses and the sources at hand do not define:
  \<open>url_parts\<close> is \<open>RedditBase._url_parts\<close>, \<open>API_PATH\<close> the endpoint table of
  \<open>const.py\<close>, \<open>format\<close> is \<open>str.format\<close> with keyword arguments, \<open>dumps\<close> is
  \<open>json.dumps\<close>, and \<open>transport\<close> is the HTTP client behind \<open>Reddit.request\<close> and
  \<open>Reddit.post\<close>: its answer to a request, which may depend on the requests issued
  before.
\<close>

record env =
  url_parts :: "string \<Rightarrow> error + string list"
  API_PATH :: "string \<rightharpoonup> string"
  format :: "string \<Rightarrow> (string \<times> pyval) list \<Rightarrow> error + string"
  dumps :: "pyval \<Rightarrow> string"
  transport :: "request list \<Rightarrow> request \<Rightarrow> error + pyval"

type_synonym 'a io = "world \<Rightarrow> (error + 'a) \<times> world"

definition returnIO :: "'a \<Rightarrow> 'a io" where
  "returnIO a w = (Inr a, w)"

definition throwIO :: "error \<Rightarrow> 'a io" where
  "throwIO e w = (Inl e, w)"

definition liftIO :: "error + 'a \<Rightarrow> 'a io" where
  "liftIO r w = (r, w)"

definition bindIO :: "'a io \<Rightarrow> ('a \<Rightarrow> 'b io) \<Rightarrow> 'b io" where
  "bindIO m f w = (case m w of (Inl e, w') \<Rightarrow> (Inl e, w') | (Inr a, w') \<Rightarrow> f a w')"

text \<open>\<open>warnings.warn(message)\<close> records the warning and goes on.\<close>

definition warn :: "string \<Rightarrow> unit io" where
  "warn message w = (Inr (), w\<lparr>warnings := warnings w @ [message]\<rparr>)"

text \<open>Issuing a request: it is recorded whether the transport answers or raises.\<close>

definition issue :: "env \<Rightarrow> request \<Rightarrow> pyval io" where
  "issue env req w = (transport env (sent w) req, w\<lparr>sent := sent w @ [req]\<rparr>)"

definition api_path :: "env \<Rightarrow> string \<Rightarrow> error + string" where
  "api_path env name = (case API_PATH env name of None \<Rightarrow> Inl KeyError | Some p \<Rightarrow> Inr p)"

definition post :: "env \<Rightarrow> string \<Rightarrow> (string \<times> pyval) list \<Rightarrow> pyval io" where
  "post env path data =
     issue env \<lparr>req_method = ''POST'', req_path = path, req_params = [], req_data = data\<rparr>"

section \<open>Submission: attribute assignment\<close>

text \<open>
  A submission is its instance dictionary \<open>__dict__\<close>, a map from attribute names to
  values. When an operation raises, the model returns the exception only: the object as
  the exception leaves it is not tracked.
\<close>

type_synonym attrs = "string \<rightharpoonup> pyval"

text \<open>
  Reading an attribute that the instance does not hold raises \<open>AttributeError\<close>, and
  \<open>hasattr\<close> is membership in the instance dictionary, for the attributes read here
  (\<open>_reddit\<close>, \<open>_fetched\<close>, \<open>id\<close>, \<open>comment_limit\<close>, \<open>comment_sort\<close>, \<open>comments\<close>), none of
  which the class defines.
\<close>

definition getattr :: "attrs \<Rightarrow> string \<Rightarrow> error + pyval" where
  "getattr self attribute =
     (case self attribute of None \<Rightarrow> Inl AttributeError | Some v \<Rightarrow> Inr v)"

definition delattr :: "attrs \<Rightarrow> string \<Rightarrow> error + attrs" where
  "delattr self attribute =
     (if attribute \<in> dom self then Inr (self(attribute := None)) else Inl AttributeError)"

text \<open>
  \<open>self._reddit.config.warn_comment_sort\<close>: a value that is not the client has no
  \<open>config\<close>.
\<close>

definition warn_comment_sort :: "pyval \<Rightarrow> error + bool" where
  "warn_comment_sort reddit = (case reddit of Reddit flag \<Rightarrow> Inr flag | _ \<Rightarrow> Inl AttributeError)"

text \<open>\<open>self._reddit.request\<close>: likewise, only the client has the method.\<close>

definition request_method :: "pyval \<Rightarrow> error + unit" where
  "request_method reddit = (case reddit of Reddit _ \<Rightarrow> Inr () | _ \<Rightarrow> Inl AttributeError)"

text \<open>
  Modelled from the spec: \<open>Redditor.from_data\<close> and the constructors of Subreddit and
  PollData are not part of the sources at hand. The entity reference factory converts a
  raw record into a typed lightweight reference without fetching it; it is pure and
  stateless.
\<close>

definition Redditor_from_data :: "pyval \<Rightarrow> pyval \<Rightarrow> pyval" where
  "Redditor_from_data reddit value = Redditor value"

definition Subreddit_new :: "pyval \<Rightarrow> pyval \<Rightarrow> pyval" where
  "Subreddit_new reddit value = Subreddit value"

definition PollData_new :: "pyval \<Rightarrow> pyval \<Rightarrow> pyval" where
  "PollData_new reddit value = PollData value"

text \<open>
  \<open>object.__setattr__\<close>, which the last line of \<open>Submission.__setattr__\<close> reaches through
  \<open>super()\<close>: the value goes into the instance dictionary, except under a name that the
  class defines as a property without a setter, where it raises \<open>AttributeError\<close>.
  \<open>_kind\<close> and \<open>shortlink\<close> are such properties of Submission; \<open>fullname\<close> is the one
  it inherits (not part of the sources at hand; the spec derives it from kind and id).
\<close>

definition read_only_properties :: "string list" where
  "read_only_properties = [''_kind'', ''shortlink'', ''fullname'']"

definition object_setattr :: "attrs \<Rightarrow> string \<Rightarrow> pyval \<Rightarrow> error + attrs" where
  "object_setattr self attribute value =
     (if attribute \<in> set read_only_properties then Inl AttributeError
      else Inr (self(attribute \<mapsto> value)))"

definition comment_sort_warning :: string where
  "comment_sort_warning =
     ''The comments for this submission have already been fetched, '' @
     ''so the updated comment_sort will not have any effect''"

text \<open>
  The condition of the last \<open>elif\<close> of \<open>Submission.__setattr__\<close>, with the short-circuit
  evaluation of \<open>and\<close>.
\<close>

definition warns_on_assignment :: "attrs \<Rightarrow> string \<Rightarrow> error + bool" where
  "warns_on_assignment self attribute =
     (if attribute \<noteq> ''comment_sort'' then Inr False
      else (case self ''_fetched'' of
              None \<Rightarrow> Inr False
            | Some fetched \<Rightarrow>
                if \<not> truthy fetched then Inr False
                else (case self ''_reddit'' of
                        None \<Rightarrow> Inr False
                      | Some reddit \<Rightarrow> warn_comment_sort reddit)))"

text \<open>\<open>Submission.__setattr__(attribute, value)\<close>.\<close>

definition Submission_setattr :: "attrs \<Rightarrow> string \<Rightarrow> pyval \<Rightarrow> attrs io" where
  "Submission_setattr self attribute value =
     bindIO
       (if attribute = ''author'' then
          bindIO (liftIO (getattr self ''_reddit'')) (\<lambda>reddit.
            returnIO (Redditor_from_data reddit value))
        else if attribute = ''subreddit'' then
          bindIO (liftIO (getattr self ''_reddit'')) (\<lambda>reddit.
            returnIO (Subreddit_new reddit value))
        else if attribute = ''poll_data'' then
          bindIO (liftIO (getattr self ''_reddit'')) (\<lambda>reddit.
            returnIO (PollData_new reddit value))
        else
          bindIO (liftIO (warns_on_assignment self attribute)) (\<lambda>warning.
            if warning then bindIO (warn comment_sort_warning) (\<lambda>_. returnIO value)
            else returnIO value))
       (\<lambda>value. liftIO (object_setattr self attribute value))"

section \<open>Submission: construction\<close>

text \<open>
  Modelled from the spec: the initialiser of the base classes (\<open>RedditBase.__init__\<close> and
  the one it extends) is not part of the sources at hand. A lazy entity is constructed
  unfetched; its fields are populated at construction from the record supplied; and the
  attribute normaliser intercepts every assignment, so each field of the record is
  assigned through \<open>__setattr__\<close>, in the record's order. A supplied record that is not a
  dict has no items to assign and raises.
\<close>

fun setattr_items :: "attrs \<Rightarrow> (string \<times> pyval) list \<Rightarrow> attrs io" where
  "setattr_items self [] = returnIO self"
| "setattr_items self ((attribute, value) # rest) =
     bindIO (Submission_setattr self attribute value) (\<lambda>self. setattr_items self rest)"

definition RedditBase_init :: "attrs \<Rightarrow> pyval \<Rightarrow> pyval \<Rightarrow> attrs io" where
  "RedditBase_init self reddit data =
     bindIO (Submission_setattr self ''_reddit'' reddit) (\<lambda>self.
     bindIO (if truthy data
             then (case data of PDict items \<Rightarrow> setattr_items self items
                   | _ \<Rightarrow> throwIO AttributeError)
             else returnIO self) (\<lambda>self.
     Submission_setattr self ''_fetched'' (PBool False)))"

text \<open>
  \<open>Submission.__init__(reddit, id, url, _data)\<close>, starting from an empty instance
  dictionary. \<open>id_arg\<close> and \<open>url_arg\<close> are \<open>Optional[str]\<close>, \<open>data_arg\<close> is \<open>PNone\<close> when
  \<open>_data\<close> is \<open>None\<close>. \<open>if id:\<close> and \<open>elif url:\<close> test for a string that is not empty.
\<close>

definition str_truthy :: "string option \<Rightarrow> bool" where
  "str_truthy x = (case x of None \<Rightarrow> False | Some s \<Rightarrow> s \<noteq> [])"

definition Submission_init ::
  "env \<Rightarrow> pyval \<Rightarrow> string option \<Rightarrow> string option \<Rightarrow> pyval \<Rightarrow> attrs io" where
  "Submission_init env reddit id_arg url_arg data_arg =
     (if count_list [id_arg = None, url_arg = None, data_arg = PNone] True \<noteq> 2
      then throwIO TypeError
      else
        bindIO (Submission_setattr Map.empty ''comment_limit'' (PInt 2048)) (\<lambda>self.
        bindIO (Submission_setattr self ''comment_sort'' (PStr ''confidence'')) (\<lambda>self.
        bindIO (if str_truthy id_arg then
                  Submission_setattr self ''id'' (PStr (the id_arg))
                else if str_truthy url_arg then
                  bindIO (liftIO (id_from_url (url_parts env) (the url_arg))) (\<lambda>i.
                    Submission_setattr self ''id'' (PStr i))
                else returnIO self) (\<lambda>self.
        bindIO (RedditBase_init self reddit data_arg) (\<lambda>self.
        bindIO (Submission_setattr self ''_comments_by_id'' (PDict [])) (\<lambda>self.
        Submission_setattr self ''comments'' (CommentForest [])))))))"

section \<open>Submission: hydration\<close>

text \<open>\<open>Submission._fetch_info()\<close> and \<open>Submission._fetch_data()\<close>.\<close>

definition fetch_info ::
  "attrs \<Rightarrow> error + string \<times> (string \<times> pyval) list \<times> (string \<times> pyval) list" where
  "fetch_info self =
     bindE (getattr self ''id'') (\<lambda>i.
     bindE (getattr self ''comment_limit'') (\<lambda>limit.
     bindE (getattr self ''comment_sort'') (\<lambda>sort.
     Inr (''submission'', [(''id'', i)], [(''limit'', limit), (''sort'', sort)]))))"

definition fetch_data :: "env \<Rightarrow> attrs \<Rightarrow> pyval io" where
  "fetch_data env self =
     bindIO (liftIO (fetch_info self)) (\<lambda>(name, fields, params).
     bindIO (liftIO (api_path env name)) (\<lambda>template.
     bindIO (liftIO (format env template fields)) (\<lambda>path.
     bindIO (liftIO (bindE (getattr self ''_reddit'') request_method)) (\<lambda>_.
     issue env \<lparr>req_method = ''GET'', req_path = path,
                req_params = params, req_data = []\<rparr>))))"

text \<open>\<open>submission_listing["data"]["children"][0]["data"]\<close>.\<close>

definition submission_data_of :: "pyval \<Rightarrow> error + pyval" where
  "submission_data_of submission_listing =
     bindE (subscript_key submission_listing ''data'') (\<lambda>d.
     bindE (subscript_key d ''children'') (\<lambda>children.
     bindE (subscript_int children 0) (\<lambda>child.
     subscript_key child ''data'')))"

text \<open>
  Modelled from the spec: Listing and \<open>CommentForest._update\<close> are not part of the sources
  at hand. A list response wraps its children as an ordered sequence, which
  \<open>Listing_children\<close> reads from the listing's data; \<open>_update\<close> replaces the root-level
  sequence of the forest wholesale.
\<close>

definition Listing_children :: "pyval \<Rightarrow> error + pyval list" where
  "Listing_children listing_data =
     (case listing_data of
        PDict items \<Rightarrow>
          (case map_of items ''children'' of
             Some (PList children) \<Rightarrow> Inr children
           | Some _ \<Rightarrow> Inl TypeError
           | None \<Rightarrow> Inl AttributeError)
      | _ \<Rightarrow> Inl AttributeError)"

definition CommentForest_update :: "pyval \<Rightarrow> pyval list \<Rightarrow> error + pyval" where
  "CommentForest_update forest children =
     (case forest of CommentForest _ \<Rightarrow> Inr (CommentForest children)
      | _ \<Rightarrow> Inl AttributeError)"

text \<open>
  \<open>Submission._fetch()\<close>: the transient submission is built from the record of the
  response, loses \<open>comment_limit\<close> and \<open>comment_sort\<close>, gets a fresh forest, and its
  instance dictionary is merged into \<open>self\<close> by \<open>dict.update\<close>.
\<close>

definition Submission_fetch :: "env \<Rightarrow> attrs \<Rightarrow> attrs io" where
  "Submission_fetch env self =
     bindIO (fetch_data env self) (\<lambda>data.
     bindIO (liftIO (unpack2 data)) (\<lambda>(submission_listing, comment_listing).
     bindIO (liftIO (getattr self ''_reddit'')) (\<lambda>reddit.
     bindIO (liftIO (subscript_key comment_listing ''data'')) (\<lambda>comment_listing.
     bindIO (liftIO (submission_data_of submission_listing)) (\<lambda>submission_data.
     bindIO (Submission_init env reddit None None submission_data) (\<lambda>submission.
     bindIO (liftIO (delattr submission ''comment_limit'')) (\<lambda>submission.
     bindIO (liftIO (delattr submission ''comment_sort'')) (\<lambda>submission.
     bindIO (Submission_setattr submission ''comments'' (CommentForest [])) (\<lambda>submission.
     bindIO (Submission_setattr (self ++ submission) ''_fetched'' (PBool True)) (\<lambda>self.
     bindIO (liftIO (Listing_children comment_listing)) (\<lambda>children.
     bindIO (liftIO (bindE (getattr self ''comments'') (\<lambda>forest.
                       CommentForest_update forest children))) (\<lambda>forest.
     returnIO (self(''comments'' \<mapsto> forest))))))))))))))"

section \<open>Moderation\<close>

text \<open>
  \<open>SubmissionModeration.sticky(bottom, state)\<close>. \<open>thing_fullname\<close> is
  \<open>self.thing.fullname\<close>, already evaluated. The request is inside the \<open>try\<close>; the
  handler catches \<open>Conflict\<close> and falls through, so the call returns \<open>None\<close>.
\<close>

definition except_Conflict :: "pyval io \<Rightarrow> pyval io" where
  "except_Conflict body w =
     (case body w of
        (Inl e, w') \<Rightarrow> if e = Conflict then (Inr PNone, w') else (Inl e, w')
      | (Inr v, w') \<Rightarrow> (Inr v, w'))"

definition sticky :: "env \<Rightarrow> string \<Rightarrow> bool \<Rightarrow> bool \<Rightarrow> pyval io" where
  "sticky env thing_fullname bottom state =
     (let data = [(''id'', PStr thing_fullname), (''state'', PBool state)]
                 @ (if \<not> bottom then [(''num'', PInt 1)] else [])
      in except_Conflict
           (bindIO (liftIO (api_path env ''sticky_submission'')) (\<lambda>path.
              post env path data)))"

text \<open>
  The moderation classes of the sources at hand and their \<open>REMOVAL_MESSAGE_API\<close>:
  the mixin leaves it \<open>None\<close>, SubmissionModeration sets it.
\<close>

datatype moderation = ThingModerationMixin | SubmissionModeration

fun REMOVAL_MESSAGE_API :: "moderation \<Rightarrow> string option" where
  "REMOVAL_MESSAGE_API ThingModerationMixin = None"
| "REMOVAL_MESSAGE_API SubmissionModeration = Some ''removal_link_message''"

text \<open>
  \<open>ThingModerationMixin.send_removal_message(message, title, type)\<close> on an instance of
  class \<open>cls\<close>; \<open>title\<close> and \<open>type\<close> default to \<open>''ignored''\<close> and \<open>''public''\<close> in the
  source. The result is that of the request, or \<open>None\<close> when that is false.
\<close>

definition send_removal_message ::
  "env \<Rightarrow> moderation \<Rightarrow> string \<Rightarrow> string \<Rightarrow> string \<Rightarrow> string \<Rightarrow> pyval io" where
  "send_removal_message env cls thing_fullname message title type =
     (case REMOVAL_MESSAGE_API cls of
        None \<Rightarrow> throwIO NotImplementedError
      | Some name \<Rightarrow>
          bindIO (liftIO (api_path env name)) (\<lambda>url.
          let data = PDict [(''item_id'', PList [PStr thing_fullname]),
                            (''message'', PStr message),
                            (''title'', PStr title),
                            (''type'', PStr type)]
          in bindIO (post env url [(''json'', PStr (dumps env data))]) (\<lambda>result.
             returnIO (if truthy result then result else PNone))))"

section \<open>Sample inputs\<close>

text \<open>
  The path segments of a few URLs, as a sample value of the parameter \<open>url_parts\<close>: the
  four URLs of the docstring of \<open>id_from_url\<close>, a subreddit URL, a permalink cut after
  \<open>comments\<close>, a gallery URL without identifier, a gallery URL followed by
  \<open>comments\<close>, and a comments URL with a hyphen in the place of the identifier. The
  path is split at \<open>/\<close> after its trailing \<open>/\<close> is dropped.
\<close>

definition example_url_parts :: "string \<Rightarrow> error + string list" where
  "example_url_parts url =
     (if url = ''https://redd.it/2gmzqe'' then Inr ['''', ''2gmzqe'']
      else if url = ''https://reddit.com/comments/2gmzqe/''
        then Inr ['''', ''comments'', ''2gmzqe'']
      else if url = ''https://www.reddit.com/r/redditdev/comments/2gmzqe/praw_https/''
        then Inr ['''', ''r'', ''redditdev'', ''comments'', ''2gmzqe'', ''praw_https'']
      else if url = ''https://www.reddit.com/gallery/2gmzqe''
        then Inr ['''', ''gallery'', ''2gmzqe'']
      else if url = ''https://www.reddit.com/r/redditdev/''
        then Inr ['''', ''r'', ''redditdev'']
      else if url = ''https://www.reddit.com/r/redditdev/comments/''
        then Inr ['''', ''r'', ''redditdev'', ''comments'']
      else if url = ''https://www.reddit.com/gallery/''
        then Inr ['''', ''gallery'']
      else if url = ''https://www.reddit.com/gallery/2gmzqe/comments''
        then Inr ['''', ''gallery'', ''2gmzqe'', ''comments'']
      else if url = ''https://www.reddit.com/comments/a-b''
        then Inr ['''', ''comments'', ''a-b'']
      else Inl InvalidURL)"

text \<open>
  The instance dictionary of a submission constructed from the identifier \<open>i\<close> alone,
  and the same submission once its \<open>_fetched\<close> flag is set.
\<close>

definition unfetched_submission :: "pyval \<Rightarrow> string \<Rightarrow> attrs" where
  "unfetched_submission reddit i =
     [''comment_limit'' \<mapsto> PInt 2048, ''comment_sort'' \<mapsto> PStr ''confidence'',
      ''id'' \<mapsto> PStr i, ''_reddit'' \<mapsto> reddit, ''_fetched'' \<mapsto> PBool False,
      ''_comments_by_id'' \<mapsto> PDict [], ''comments'' \<mapsto> CommentForest []]"

definition fetched_example :: attrs where
  "fetched_example = (unfetched_submission (Reddit True) ''2gmzqe'')(''_fetched'' \<mapsto> PBool True)"

definition world0 :: world where
  "world0 = \<lparr>sent = [], warnings = []\<rparr>"

text \<open>
  Sample collaborators: an endpoint table with the three entries used here, a
  \<open>format\<close> that leaves the template as it is, a constant \<open>dumps\<close>, and a transport that
  answers every \<open>GET\<close> with the same pair of listings, reports a conflict for the
  sticky endpoint and an error of its own for every other request but the removal
  message.
\<close>

definition example_submission_data :: pyval where
  "example_submission_data =
     PDict [(''id'', PStr ''2gmzqe''),
            (''author'', PStr ''bboe''),
            (''subreddit'', PStr ''redditdev''),
            (''title'', PStr ''praw_https'')]"

definition example_submission_listing :: pyval where
  "example_submission_listing =
     PDict [(''kind'', PStr ''Listing''),
            (''data'', PDict [(''children'', PList [
               PDict [(''kind'', PStr ''t3''), (''data'', example_submission_data)]])])]"

definition example_comment_data :: pyval where
  "example_comment_data = PDict [(''children'', PList [PStr ''first reply''])]"

definition example_comment_listing :: pyval where
  "example_comment_listing =
     PDict [(''kind'', PStr ''Listing''), (''data'', example_comment_data)]"

definition example_response :: pyval where
  "example_response = PList [example_submission_listing, example_comment_listing]"

definition example_transport :: "request list \<Rightarrow> request \<Rightarrow> error + pyval" where
  "example_transport history req =
     (if req_method req = ''GET'' then Inr example_response
      else if req_path req = ''api/set_subreddit_sticky/'' then Inl Conflict
      else if req_path req = ''api/v1/modactions/removal_link_message'' then Inr (PDict [])
      else Inl (TransportError 500))"

definition example_env :: env where
  "example_env =
     \<lparr>url_parts = example_url_parts,
      API_PATH = [''submission'' \<mapsto> ''comments/{id}/'',
                  ''sticky_submission'' \<mapsto> ''api/set_subreddit_sticky/'',
                  ''removal_link_message'' \<mapsto> ''api/v1/modactions/removal_link_message''],
      format = (\<lambda>template fields. Inr template),
      dumps = (\<lambda>v. ''{}''),
      transport = example_transport\<rparr>"

text \<open>What \<open>__setattr__\<close> stores under an attribute when it does not raise.\<close>

definition stored :: "string \<Rightarrow> pyval \<Rightarrow> pyval" where
  "stored attribute value =
     (if attribute = ''author'' then Redditor value
      else if attribute = ''subreddit'' then Subreddit value
      else if attribute = ''poll_data'' then PollData value
      else value)"

text \<open>
  The instance dictionary that \<open>_fetch\<close> leaves when it completes: \<open>self\<close> updated with
  the transient submission (without its \<open>comment_limit\<close> and \<open>comment_sort\<close>), the
  fetched flag set and the forest holding the children of the comment listing.
\<close>

definition hydrated :: "attrs \<Rightarrow> attrs \<Rightarrow> pyval list \<Rightarrow> attrs" where
  "hydrated self submission children =
     (self ++ submission(''comment_limit'' := None, ''comment_sort'' := None,
                         ''comments'' \<mapsto> CommentForest []))
       (''_fetched'' \<mapsto> PBool True, ''comments'' \<mapsto> CommentForest children)"

text \<open>
  A submission constructed from an identifier whose \<open>comment_sort\<close> was then set to
  \<open>new\<close>; the request its \<open>_fetch\<close> issues; the transient submission that \<open>_fetch\<close>
  builds from the sample response; and the requests issued after one fetch.
\<close>

definition example_unfetched :: attrs where
  "example_unfetched =
     (unfetched_submission (Reddit True) ''2gmzqe'')(''comment_sort'' \<mapsto> PStr ''new'')"

definition example_request :: request where
  "example_request =
     \<lparr>req_method = ''GET'', req_path = ''comments/{id}/'',
      req_params = [(''limit'', PInt 2048), (''sort'', PStr ''new'')], req_data = []\<rparr>"

definition example_transient :: attrs where
  "example_transient =
     [''comment_limit'' \<mapsto> PInt 2048, ''comment_sort'' \<mapsto> PStr ''confidence'',
      ''_reddit'' \<mapsto> Reddit True, ''id'' \<mapsto> PStr ''2gmzqe'',
      ''author'' \<mapsto> Redditor (PStr ''bboe''),
      ''subreddit'' \<mapsto> Subreddit (PStr ''redditdev''),
      ''title'' \<mapsto> PStr ''praw_https'', ''_fetched'' \<mapsto> PBool False,
      ''_comments_by_id'' \<mapsto> PDict [], ''comments'' \<mapsto> CommentForest []]"

definition world1 :: world where
  "world1 = \<lparr>sent = [example_request], warnings = []\<rparr>"

definition example_hydrated :: attrs where
  "example_hydrated = hydrated example_unfetched example_transient [PStr ''first reply'']"

section \<open>Sequence primitives: facts\<close>

lemma py_index_first: "x \<notin> set pre \<Longrightarrow> py_index (pre @ x # rest) x = Inr (length pre)"
  by (induction pre) (auto simp: bindE_def)

lemma py_get_last: "xs \<noteq> [] \<Longrightarrow> py_get xs (- 1) = Inr (last xs)"
  by (cases xs rule: rev_cases) (auto simp: py_get_def Let_def nth_append)

lemma py_get_after:
  "py_get (pre @ x # rest) (int (length pre) + 1) =
     (case rest of [] \<Rightarrow> Inl IndexError | y # _ \<Rightarrow> Inr y)"
  by (auto simp: py_get_def Let_def nth_append split: list.splits)

section \<open>The identifier of a submission URL: results\<close>

text \<open>
  What each branch of \<open>id_from_url\<close> computes from the segments it is given, whether
  or not the URL has the shape the branch is meant for.
\<close>

lemma id_from_url_gallery:
  assumes "parts_of url = Inr (pre @ ''gallery'' # sid # rest)" "''gallery'' \<notin> set pre"
  shows "id_from_url parts_of url = (if isalnum sid then Inr sid else Inl InvalidURL)"
  using assms by (simp add: id_from_url_def bindE_def py_index_first py_get_after)

lemma id_from_url_comments:
  assumes "parts_of url = Inr (pre @ ''comments'' # sid # rest)" "''comments'' \<notin> set pre"
    "''gallery'' \<notin> set (pre @ sid # rest)" "last (sid # rest) \<noteq> ''comments''"
  shows "id_from_url parts_of url = (if isalnum sid then Inr sid else Inl InvalidURL)"
  using assms by (simp add: id_from_url_def bindE_def py_index_first py_get_after py_get_last)

lemma id_from_url_last:
  assumes "parts_of url = Inr (pre @ [sid])" "''comments'' \<notin> set (pre @ [sid])"
    "''gallery'' \<notin> set (pre @ [sid])" "''r'' \<notin> set (pre @ [sid])"
  shows "id_from_url parts_of url = (if isalnum sid then Inr sid else Inl InvalidURL)"
  using assms by (simp add: id_from_url_def bindE_def py_get_last)

lemma id_from_url_subreddit:
  assumes "parts_of url = Inr parts" "''r'' \<in> set parts" "''comments'' \<notin> set parts"
    "''gallery'' \<notin> set parts"
  shows "id_from_url parts_of url = Inl InvalidURL"
proof -
  from assms(2) have "parts \<noteq> []" by auto
  then show ?thesis using assms by (simp add: id_from_url_def bindE_def py_get_last)
qed

lemma id_from_url_ends_comments:
  assumes "parts_of url = Inr parts" "parts \<noteq> []" "last parts = ''comments''"
    "''gallery'' \<notin> set parts"
  shows "id_from_url parts_of url = Inl InvalidURL"
proof -
  from assms(2,3) have "''comments'' \<in> set parts" using last_in_set by metis
  then show ?thesis using assms by (simp add: id_from_url_def bindE_def py_get_last)
qed

lemma id_from_url_alnum: "id_from_url parts_of url = Inr sid \<Longrightarrow> isalnum sid"
  by (auto simp: id_from_url_def bindE_def split: sum.splits if_splits)

section \<open>Claims on the identifier of a submission URL\<close>

text \<open>
  C2 (as amended). The path of a URL starts with \<open>/\<close>, so its first segment is empty.
  The four accepted shapes are the shortlink \<open>/id\<close>, the comments path without
  subreddit \<open>/comments/id/...\<close>, the full subreddit permalink
  \<open>/r/subreddit/comments/id/...\<close> and the gallery path \<open>/gallery/id\<close>. For a URL in
  one of these shapes in which no segment besides the marker of the shape is itself the
  word \<open>comments\<close> or \<open>gallery\<close> (nor, for a shortlink, \<open>r\<close>), the result is the
  identifier when it is alphanumeric and \<open>InvalidURL\<close> when it is not. A
  subreddit-only URL (a segment \<open>r\<close>, none \<open>comments\<close> or \<open>gallery\<close>) fails with
  \<open>InvalidURL\<close>. A URL whose last segment is \<open>comments\<close> fails with \<open>InvalidURL\<close>
  provided it has no \<open>gallery\<close> segment. Every identifier returned is alphanumeric.
  Nothing is stated for a URL in which an identifier, a subreddit name or a trailing
  segment is one of the marker words.
\<close>

theorem id_from_url_shapes:
  assumes "parts_of url = Inr parts"
  shows
    "(parts = ['''', sid] \<and> sid \<noteq> ''comments'' \<and> sid \<noteq> ''gallery'' \<and> sid \<noteq> ''r'' \<longrightarrow>
        id_from_url parts_of url = (if isalnum sid then Inr sid else Inl InvalidURL))
   \<and> (parts = '''' # ''comments'' # sid # rest
        \<and> ''comments'' \<notin> set (sid # rest) \<and> ''gallery'' \<notin> set (sid # rest) \<longrightarrow>
        id_from_url parts_of url = (if isalnum sid then Inr sid else Inl InvalidURL))
   \<and> (parts = '''' # ''r'' # sub # ''comments'' # sid # rest
        \<and> ''comments'' \<notin> set (sub # sid # rest)
        \<and> ''gallery'' \<notin> set (sub # sid # rest) \<longrightarrow>
        id_from_url parts_of url = (if isalnum sid then Inr sid else Inl InvalidURL))
   \<and> (parts = ['''', ''gallery'', sid] \<and> sid \<noteq> ''comments'' \<and> sid \<noteq> ''gallery'' \<longrightarrow>
        id_from_url parts_of url = (if isalnum sid then Inr sid else Inl InvalidURL))
   \<and> (''r'' \<in> set parts \<and> ''comments'' \<notin> set parts \<and> ''gallery'' \<notin> set parts \<longrightarrow>
        id_from_url parts_of url = Inl InvalidURL)
   \<and> (parts \<noteq> [] \<and> last parts = ''comments'' \<and> ''gallery'' \<notin> set parts \<longrightarrow>
        id_from_url parts_of url = Inl InvalidURL)
   \<and> (\<forall>i. id_from_url parts_of url = Inr i \<longrightarrow> isalnum i)"
proof (intro conjI impI allI)
  assume h: "parts = ['''', sid] \<and> sid \<noteq> ''comments'' \<and> sid \<noteq> ''gallery'' \<and> sid \<noteq> ''r''"
  with assms have "parts_of url = Inr ([''''] @ [sid])" by simp
  from id_from_url_last [where parts_of = parts_of, OF this] h
  show "id_from_url parts_of url = (if isalnum sid then Inr sid else Inl InvalidURL)"
    by auto
next
  assume h: "parts = '''' # ''comments'' # sid # rest
        \<and> ''comments'' \<notin> set (sid # rest) \<and> ''gallery'' \<notin> set (sid # rest)"
  with assms have p: "parts_of url = Inr ([''''] @ ''comments'' # sid # rest)" by simp
  from h have "last (sid # rest) \<noteq> ''comments''"
    using last_in_set [of "sid # rest"] by auto
  with id_from_url_comments [where parts_of = parts_of, OF p] h
  show "id_from_url parts_of url = (if isalnum sid then Inr sid else Inl InvalidURL)"
    by auto
next
  assume h: "parts = '''' # ''r'' # sub # ''comments'' # sid # rest
        \<and> ''comments'' \<notin> set (sub # sid # rest)
        \<and> ''gallery'' \<notin> set (sub # sid # rest)"
  with assms have p: "parts_of url = Inr (['''', ''r'', sub] @ ''comments'' # sid # rest)"
    by simp
  from h have "last (sid # rest) \<noteq> ''comments''"
    using last_in_set [of "sid # rest"] by auto
  with id_from_url_comments [where parts_of = parts_of, OF p] h
  show "id_from_url parts_of url = (if isalnum sid then Inr sid else Inl InvalidURL)"
    by auto
next
  assume h: "parts = ['''', ''gallery'', sid] \<and> sid \<noteq> ''comments'' \<and> sid \<noteq> ''gallery''"
  with assms have "parts_of url = Inr ([''''] @ ''gallery'' # sid # [])" by simp
  from id_from_url_gallery [where parts_of = parts_of, OF this]
  show "id_from_url parts_of url = (if isalnum sid then Inr sid else Inl InvalidURL)"
    by auto
next
  assume "''r'' \<in> set parts \<and> ''comments'' \<notin> set parts \<and> ''gallery'' \<notin> set parts"
  with assms show "id_from_url parts_of url = Inl InvalidURL"
    by (intro id_from_url_subreddit) auto
next
  assume "parts \<noteq> [] \<and> last parts = ''comments'' \<and> ''gallery'' \<notin> set parts"
  with assms show "id_from_url parts_of url = Inl InvalidURL"
    by (intro id_from_url_ends_comments) auto
next
  fix i assume "id_from_url parts_of url = Inr i"
  then show "isalnum i" by (rule id_from_url_alnum)
qed

text \<open>
  The theorem at the four URLs of the docstring, at a subreddit URL, at a permalink cut
  after \<open>comments\<close> and at a comments URL whose identifier has a hyphen.
\<close>

theorem id_from_url_shapes_witness:
  "id_from_url example_url_parts ''https://redd.it/2gmzqe'' = Inr ''2gmzqe''
   \<and> id_from_url example_url_parts ''https://reddit.com/comments/2gmzqe/'' = Inr ''2gmzqe''
   \<and> id_from_url example_url_parts
        ''https://www.reddit.com/r/redditdev/comments/2gmzqe/praw_https/'' = Inr ''2gmzqe''
   \<and> id_from_url example_url_parts ''https://www.reddit.com/gallery/2gmzqe'' = Inr ''2gmzqe''
   \<and> id_from_url example_url_parts ''https://www.reddit.com/r/redditdev/'' = Inl InvalidURL
   \<and> id_from_url example_url_parts ''https://www.reddit.com/r/redditdev/comments/''
        = Inl InvalidURL
   \<and> id_from_url example_url_parts ''https://www.reddit.com/comments/a-b'' = Inl InvalidURL
   \<and> isalnum ''2gmzqe''"
proof -
  have a: "example_url_parts ''https://redd.it/2gmzqe'' = Inr ['''', ''2gmzqe'']"
    by (simp add: example_url_parts_def)
  have b: "example_url_parts ''https://reddit.com/comments/2gmzqe/''
             = Inr ['''', ''comments'', ''2gmzqe'']"
    by (simp add: example_url_parts_def)
  have c: "example_url_parts ''https://www.reddit.com/r/redditdev/comments/2gmzqe/praw_https/''
             = Inr ['''', ''r'', ''redditdev'', ''comments'', ''2gmzqe'', ''praw_https'']"
    by (simp add: example_url_parts_def)
  have d: "example_url_parts ''https://www.reddit.com/gallery/2gmzqe''
             = Inr ['''', ''gallery'', ''2gmzqe'']"
    by (simp add: example_url_parts_def)
  have e: "example_url_parts ''https://www.reddit.com/r/redditdev/''
             = Inr ['''', ''r'', ''redditdev'']"
    by (simp add: example_url_parts_def)
  have f: "example_url_parts ''https://www.reddit.com/r/redditdev/comments/''
             = Inr ['''', ''r'', ''redditdev'', ''comments'']"
    by (simp add: example_url_parts_def)
  have g: "example_url_parts ''https://www.reddit.com/comments/a-b''
             = Inr ['''', ''comments'', ''a-b'']"
    by (simp add: example_url_parts_def)
  have al: "isalnum ''2gmzqe''" "\<not> isalnum ''a-b''"
    by (simp_all add: isalnum_def isalnum_char_def)
  show ?thesis
    using id_from_url_shapes [where parts_of = example_url_parts
        and sid = "''2gmzqe''" and rest = "[]", OF a]
      id_from_url_shapes [where parts_of = example_url_parts
        and sid = "''2gmzqe''" and rest = "[]", OF b]
      id_from_url_shapes [where parts_of = example_url_parts and sub = "''redditdev''"
        and sid = "''2gmzqe''" and rest = "[''praw_https'']", OF c]
      id_from_url_shapes [where parts_of = example_url_parts
        and sid = "''2gmzqe''" and rest = "[]", OF d]
      id_from_url_shapes [where parts_of = example_url_parts, OF e]
      id_from_url_shapes [where parts_of = example_url_parts, OF f]
      id_from_url_shapes [where parts_of = example_url_parts
        and sid = "''a-b''" and rest = "[]", OF g]
      al
    by simp
qed

text \<open>
  C2 as stated fails: the path \<open>/gallery/2gmzqe/comments\<close> ends in the segment
  \<open>comments\<close>, and the result is the identifier, not \<open>InvalidURL\<close>, because the
  \<open>gallery\<close> branch comes first.
\<close>

theorem id_from_url_counterexample:
  "example_url_parts ''https://www.reddit.com/gallery/2gmzqe/comments''
     = Inr ['''', ''gallery'', ''2gmzqe'', ''comments'']
   \<and> last ['''', ''gallery'', ''2gmzqe'', ''comments''] = ''comments''
   \<and> id_from_url example_url_parts ''https://www.reddit.com/gallery/2gmzqe/comments''
       = Inr ''2gmzqe''"
  by (simp add: id_from_url_def example_url_parts_def bindE_def py_get_def
      isalnum_def isalnum_char_def)

text \<open>
  C10. When the \<open>gallery\<close> segment is the last segment of the path, with no segment
  after it, \<open>id_from_url\<close> does not fail with \<open>InvalidURL\<close>: the lookup of the segment
  after \<open>gallery\<close> is out of range and raises \<open>IndexError\<close>.
\<close>

theorem id_from_url_gallery_last:
  assumes "parts_of url = Inr (pre @ [''gallery''])" "''gallery'' \<notin> set pre"
  shows "id_from_url parts_of url = Inl IndexError
         \<and> id_from_url parts_of url \<noteq> Inl InvalidURL"
  using assms by (simp add: id_from_url_def bindE_def py_index_first py_get_after)

theorem id_from_url_gallery_last_witness:
  "example_url_parts ''https://www.reddit.com/gallery/'' = Inr ([''''] @ [''gallery''])
   \<and> ''gallery'' \<notin> set ['''']
   \<and> id_from_url example_url_parts ''https://www.reddit.com/gallery/'' = Inl IndexError"
proof -
  have a: "example_url_parts ''https://www.reddit.com/gallery/'' = Inr ([''''] @ [''gallery''])"
    by (simp add: example_url_parts_def)
  have b: "''gallery'' \<notin> set ['''']" by simp
  show ?thesis
    using a b id_from_url_gallery_last [where parts_of = example_url_parts, OF a b] by simp
qed

section \<open>The batch chunker: results\<close>

text \<open>
  At the group size 50, the one value that \<open>hide\<close> and \<open>unhide\<close> pass, the groups
  concatenate to the list of identifiers, none is empty or longer than 50, and their
  number is the length of the list divided by 50, rounded up.
\<close>

lemma py_slice_fifty:
  assumes "0 \<le> i"
  shows "py_slice xs i (i + 50) = take 50 (drop (nat i) xs)"
proof (cases "i + 50 \<le> int (length xs)")
  case True
  with assms show ?thesis by (simp add: py_slice_def Let_def min_def)
next
  case False
  with assms show ?thesis by (auto simp add: py_slice_def Let_def min_def)
qed

lemma concat_slices_fifty:
  assumes "0 \<le> i"
  shows "concat (map (\<lambda>position. py_slice xs position (position + 50))
           (py_range i (int (length xs)) 50)) = drop (nat i) xs"
  using assms
proof (induction i "int (length xs)" "50 :: int" rule: py_range.induct)
  case (1 start)
  show ?case
  proof (cases "start < int (length xs)")
    case True
    have n: "nat (start + 50) = nat start + 50" using "1.prems" by simp
    have unfold: "py_range start (int (length xs)) 50 =
        start # py_range (start + 50) (int (length xs)) 50"
      using True by (subst py_range.simps) simp
    have rest: "concat (map (\<lambda>position. py_slice xs position (position + 50))
           (py_range (start + 50) (int (length xs)) 50)) = drop (nat start + 50) xs"
      using True "1.prems" "1.hyps"(1) n by simp
    have "drop (nat start + 50) xs = drop 50 (drop (nat start) xs)"
      by (simp add: add.commute)
    with rest have "concat (map (\<lambda>position. py_slice xs position (position + 50))
           (py_range start (int (length xs)) 50)) =
        take 50 (drop (nat start) xs) @ drop 50 (drop (nat start) xs)"
      unfolding unfold using py_slice_fifty [OF "1.prems", of xs] by simp
    then show ?thesis by (simp only: append_take_drop_id)
  next
    case False
    with "1.prems" show ?thesis by (subst py_range.simps) simp
  qed
qed

lemma slices_fifty_bounded:
  assumes "0 \<le> i" and "g \<in> set (map (\<lambda>position. py_slice xs position (position + 50))
           (py_range i (int (length xs)) 50))"
  shows "g \<noteq> [] \<and> length g \<le> 50"
  using assms
proof (induction i "int (length xs)" "50 :: int" rule: py_range.induct)
  case (1 start)
  show ?case
  proof (cases "start < int (length xs)")
    case True
    from "1.prems"(2) True have
      "g = py_slice xs start (start + 50)
       \<or> g \<in> set (map (\<lambda>position. py_slice xs position (position + 50))
           (py_range (start + 50) (int (length xs)) 50))"
      by (subst (asm) py_range.simps) auto
    then show ?thesis
    proof
      assume "g = py_slice xs start (start + 50)"
      with True "1.prems"(1) show ?thesis by (auto simp add: py_slice_fifty)
    next
      assume "g \<in> set (map (\<lambda>position. py_slice xs position (position + 50))
           (py_range (start + 50) (int (length xs)) 50))"
      with True "1.prems"(1) "1.hyps"(1) show ?thesis by simp
    qed
  next
    case False
    with "1.prems" show ?thesis by (subst (asm) py_range.simps) simp
  qed
qed

lemma length_range_fifty:
  assumes "0 \<le> i" and "i \<le> n"
  shows "int (length (py_range i n 50)) = (n - i + 49) div 50"
  using assms
proof (induction i n "50 :: int" rule: py_range.induct)
  case (1 start stop)
  show ?case
  proof (cases "start < stop")
    case True
    show ?thesis
    proof (cases "start + 50 \<le> stop")
      case le: True
      with True "1.prems" "1.hyps"(1) have
        "int (length (py_range (start + 50) stop 50)) = (stop - (start + 50) + 49) div 50"
        by simp
      with True show ?thesis by (subst py_range.simps) simp
    next
      case gt: False
      then have "py_range (start + 50) stop 50 = []" by (subst py_range.simps) simp
      with True gt show ?thesis by (subst py_range.simps) simp
    qed
  next
    case False
    with "1.prems" show ?thesis by (subst py_range.simps) simp
  qed
qed

lemma chunk_groups_fifty:
  "\<exists>groups. chunk_groups 50 fullname other_submissions = Inr groups
     \<and> concat groups = all_submissions fullname other_submissions
     \<and> (\<forall>g \<in> set groups. g \<noteq> [] \<and> length g \<le> 50)
     \<and> int (length groups) =
         (int (length (all_submissions fullname other_submissions)) + 49) div 50"
  using concat_slices_fifty [of 0 "all_submissions fullname other_submissions"]
    slices_fifty_bounded [of 0 _ "all_submissions fullname other_submissions"]
    length_range_fifty [of 0 "int (length (all_submissions fullname other_submissions))"]
  by (simp add: chunk_groups_def Let_def)

section \<open>Claims on the batch chunker\<close>

text \<open>
  C1. The claim fails on the code for a group size other than 50: the loop steps by
  \<open>chunk_size\<close> and takes slices of 50. With \<open>chunk_size = 2\<close> and the three
  identifiers \<open>t3_a\<close>, \<open>t3_b\<close>, \<open>t3_c\<close> the two groups are all three identifiers and
  the last one: the first group is larger than 2 and the groups do not concatenate to
  the input.
\<close>

theorem chunk_size_two:
  "all_submissions ''t3_a'' (Some [''t3_b'', ''t3_c'']) = [''t3_a'', ''t3_b'', ''t3_c'']
   \<and> chunk_groups 2 ''t3_a'' (Some [''t3_b'', ''t3_c''])
     = Inr [[''t3_a'', ''t3_b'', ''t3_c''], [''t3_c'']]
   \<and> Submission_chunk 2 ''t3_a'' (Some [''t3_b'', ''t3_c''])
     = Inr [''t3_a,t3_b,t3_c'', ''t3_c'']"
  by (simp add: Submission_chunk_def bindE_def chunk_groups_def all_submissions_def
      py_range.simps py_slice_def)

section \<open>Attribute assignment: results\<close>

lemmas io_defs = bindIO_def returnIO_def throwIO_def liftIO_def warn_def

lemmas setattr_defs = Submission_setattr_def io_defs warns_on_assignment_def
  object_setattr_def read_only_properties_def getattr_def

lemma setattr_author:
  "self ''_reddit'' = Some reddit \<Longrightarrow>
   Submission_setattr self ''author'' value w =
     (Inr (self(''author'' \<mapsto> Redditor value)), w)"
  by (simp add: setattr_defs Redditor_from_data_def)

lemma setattr_subreddit:
  "self ''_reddit'' = Some reddit \<Longrightarrow>
   Submission_setattr self ''subreddit'' value w =
     (Inr (self(''subreddit'' \<mapsto> Subreddit value)), w)"
  by (simp add: setattr_defs Subreddit_new_def)

lemma setattr_poll_data:
  "self ''_reddit'' = Some reddit \<Longrightarrow>
   Submission_setattr self ''poll_data'' value w =
     (Inr (self(''poll_data'' \<mapsto> PollData value)), w)"
  by (simp add: setattr_defs PollData_new_def)

lemma setattr_plain:
  assumes "attribute \<notin> {''author'', ''subreddit'', ''poll_data'', ''comment_sort''}"
    and "attribute \<notin> set read_only_properties"
  shows "Submission_setattr self attribute value w = (Inr (self(attribute \<mapsto> value)), w)"
  using assms
  by (simp add: Submission_setattr_def io_defs warns_on_assignment_def object_setattr_def)

lemma setattr_comment_limit:
  "Submission_setattr self ''comment_limit'' value w =
     (Inr (self(''comment_limit'' \<mapsto> value)), w)"
  by (rule setattr_plain) (simp_all add: read_only_properties_def)

lemma setattr_comment_sort_fetched:
  assumes "self ''_fetched'' = Some fetched" "truthy fetched"
    and "self ''_reddit'' = Some (Reddit flag)"
  shows "Submission_setattr self ''comment_sort'' value w =
      (Inr (self(''comment_sort'' \<mapsto> value)),
       if flag then w\<lparr>warnings := warnings w @ [comment_sort_warning]\<rparr> else w)"
  using assms by (simp add: setattr_defs warn_comment_sort_def)

lemma setattr_comment_sort_unfetched:
  assumes "self ''_fetched'' = None \<or> self ''_fetched'' = Some (PBool False)"
  shows "Submission_setattr self ''comment_sort'' value w =
      (Inr (self(''comment_sort'' \<mapsto> value)), w)"
  using assms by (auto simp add: setattr_defs)

lemma setattr_success:
  assumes "Submission_setattr self attribute value w = (Inr self', w')"
  shows "self' = self(attribute \<mapsto> stored attribute value)"
  using assms
  by (auto simp add: Submission_setattr_def io_defs stored_def getattr_def object_setattr_def
      Redditor_from_data_def Subreddit_new_def PollData_new_def
      split: if_splits sum.splits option.splits prod.splits)

lemma setattr_sent: "sent (snd (Submission_setattr self attribute value w)) = sent w"
  by (auto simp add: Submission_setattr_def io_defs getattr_def object_setattr_def
      split: if_splits sum.splits option.splits prod.splits)

lemma setattr_fst_world:
  "fst (Submission_setattr self attribute value w) =
   fst (Submission_setattr self attribute value w')"
  by (auto simp add: Submission_setattr_def io_defs getattr_def object_setattr_def
      split: if_splits sum.splits option.splits prod.splits)

section \<open>Construction: results\<close>

lemma bindIO_sent:
  assumes "\<And>w. sent (snd (m w)) = sent w" and "\<And>a w. sent (snd (f a w)) = sent w"
  shows "sent (snd (bindIO m f w)) = sent w"
proof (cases "m w")
  case (Pair r w')
  with assms(1) [of w] have "sent w' = sent w" by simp
  with Pair assms(2) show ?thesis by (cases r) (simp_all add: bindIO_def)
qed

lemma liftIO_sent: "sent (snd (liftIO r w)) = sent w"
  by (simp add: liftIO_def)

lemma returnIO_sent: "sent (snd (returnIO r w)) = sent w"
  by (simp add: returnIO_def)

lemma throwIO_sent: "sent (snd (throwIO r w)) = sent w"
  by (simp add: throwIO_def)

lemma setattr_items_sent: "sent (snd (setattr_items self items w)) = sent w"
proof (induction items arbitrary: self w)
  case Nil
  show ?case by (simp add: returnIO_def)
next
  case (Cons item items)
  obtain a v where item: "item = (a, v)" by (cases item)
  show ?case unfolding item setattr_items.simps
    by (rule bindIO_sent) (simp_all add: setattr_sent Cons.IH)
qed

lemma RedditBase_init_sent: "sent (snd (RedditBase_init self reddit data w)) = sent w"
  unfolding RedditBase_init_def
  by (intro bindIO_sent)
     (auto simp: setattr_sent setattr_items_sent returnIO_sent throwIO_sent split: pyval.splits)

lemma Submission_init_sent: "sent (snd (Submission_init env reddit i u d w)) = sent w"
  unfolding Submission_init_def
  by (auto intro!: bindIO_sent
      simp: setattr_sent RedditBase_init_sent returnIO_sent throwIO_sent liftIO_sent)

lemma init_TypeError:
  "count_list [i \<noteq> None, u \<noteq> None, d \<noteq> PNone] True \<noteq> 1 \<Longrightarrow>
   Submission_init env reddit i u d w = (Inl TypeError, w)"
  by (auto simp: Submission_init_def throwIO_def split: if_splits)

lemma init_id:
  "s \<noteq> [] \<Longrightarrow>
   Submission_init env reddit (Some s) None PNone w = (Inr (unfetched_submission reddit s), w)"
  by (simp add: Submission_init_def RedditBase_init_def str_truthy_def
      unfetched_submission_def setattr_defs)

lemma init_url_accepted:
  "x \<noteq> [] \<Longrightarrow> id_from_url (url_parts env) x = Inr s \<Longrightarrow>
   Submission_init env reddit None (Some x) PNone w = (Inr (unfetched_submission reddit s), w)"
  by (simp add: Submission_init_def RedditBase_init_def str_truthy_def
      unfetched_submission_def setattr_defs)

lemma init_url_rejected:
  "x \<noteq> [] \<Longrightarrow> id_from_url (url_parts env) x = Inl e \<Longrightarrow>
   Submission_init env reddit None (Some x) PNone w = (Inl e, w)"
  by (simp add: Submission_init_def RedditBase_init_def str_truthy_def setattr_defs)

section \<open>Claims on attribute assignment and construction\<close>

text \<open>
  C3 (as amended). On a submission whose fetched flag is true, an assignment to
  \<open>comment_sort\<close> does not raise and stores the assigned value; it emits the warning
  exactly when the client's configuration has \<open>warn_comment_sort\<close> set. An
  assignment to \<open>comment_limit\<close> does not raise, stores the assigned value, and emits no
  warning.
\<close>

theorem ordering_parameter_after_fetch:
  assumes "self ''_fetched'' = Some fetched" and "truthy fetched"
    and "self ''_reddit'' = Some (Reddit flag)"
  shows "Submission_setattr self ''comment_sort'' value w =
           (Inr (self(''comment_sort'' \<mapsto> value)),
            if flag then w\<lparr>warnings := warnings w @ [comment_sort_warning]\<rparr> else w)
         \<and> Submission_setattr self ''comment_limit'' value w =
           (Inr (self(''comment_limit'' \<mapsto> value)), w)"
  using setattr_comment_sort_fetched [OF assms] setattr_comment_limit by simp

theorem ordering_parameter_after_fetch_witness:
  "fetched_example ''_fetched'' = Some (PBool True) \<and> truthy (PBool True)
   \<and> fetched_example ''_reddit'' = Some (Reddit True)
   \<and> Submission_setattr fetched_example ''comment_sort'' (PStr ''new'') world0 =
       (Inr (fetched_example(''comment_sort'' \<mapsto> PStr ''new'')),
        world0\<lparr>warnings := warnings world0 @ [comment_sort_warning]\<rparr>)"
proof -
  have a: "fetched_example ''_fetched'' = Some (PBool True)"
    by (simp add: fetched_example_def)
  have b: "truthy (PBool True)" by simp
  have c: "fetched_example ''_reddit'' = Some (Reddit True)"
    by (simp add: fetched_example_def unfetched_submission_def)
  show ?thesis
    using a b c ordering_parameter_after_fetch [OF a b c, of "PStr ''new''" world0] by simp
qed

text \<open>
  C3 as stated fails for \<open>comment_limit\<close>: on a fetched submission the assignment is
  applied and the warnings are as they were before.
\<close>

theorem comment_limit_counterexample:
  "fetched_example ''_fetched'' = Some (PBool True)
   \<and> fst (Submission_setattr fetched_example ''comment_limit'' (PInt 10) world0) =
       Inr (fetched_example(''comment_limit'' \<mapsto> PInt 10))
   \<and> warnings (snd (Submission_setattr fetched_example ''comment_limit'' (PInt 10) world0)) = []"
  by (simp add: setattr_comment_limit fetched_example_def world0_def)

text \<open>
  C4 (as amended). When the number of supplied arguments among \<open>id\<close>, \<open>url\<close> and
  \<open>_data\<close> is not exactly one, construction fails with \<open>TypeError\<close> (the spec's
  IdentityError) and leaves no request and no warning behind. Construction never issues
  a request. With a non-empty \<open>id\<close> alone it succeeds; with a non-empty \<open>url\<close> alone
  it succeeds when \<open>id_from_url\<close> accepts the URL, storing the identifier, and fails with
  the error of \<open>id_from_url\<close> when it does not.
\<close>

theorem construction:
  "(count_list [id_arg \<noteq> None, url_arg \<noteq> None, data_arg \<noteq> PNone] True \<noteq> 1 \<longrightarrow>
      Submission_init env reddit id_arg url_arg data_arg w = (Inl TypeError, w))
   \<and> sent (snd (Submission_init env reddit id_arg url_arg data_arg w)) = sent w
   \<and> (s \<noteq> [] \<longrightarrow>
      Submission_init env reddit (Some s) None PNone w =
        (Inr (unfetched_submission reddit s), w))
   \<and> (x \<noteq> [] \<and> id_from_url (url_parts env) x = Inr s \<longrightarrow>
      Submission_init env reddit None (Some x) PNone w =
        (Inr (unfetched_submission reddit s), w))
   \<and> (x \<noteq> [] \<and> id_from_url (url_parts env) x = Inl e \<longrightarrow>
      Submission_init env reddit None (Some x) PNone w = (Inl e, w))"
  using init_TypeError [of id_arg url_arg data_arg env reddit w]
    Submission_init_sent [of env reddit id_arg url_arg data_arg w]
    init_id [of s env reddit w] init_url_accepted [of x env s reddit w]
    init_url_rejected [of x env e reddit w]
  by blast

theorem construction_witness:
  "count_list [Some ''2gmzqe'' \<noteq> None, Some ''https://redd.it/2gmzqe'' \<noteq> None, PNone \<noteq> PNone]
      True \<noteq> 1
   \<and> Submission_init example_env (Reddit True) (Some ''2gmzqe'')
        (Some ''https://redd.it/2gmzqe'') PNone world0 = (Inl TypeError, world0)
   \<and> Submission_init example_env (Reddit True) (Some ''2gmzqe'') None PNone world0 =
        (Inr (unfetched_submission (Reddit True) ''2gmzqe''), world0)
   \<and> id_from_url (url_parts example_env) ''https://redd.it/2gmzqe'' = Inr ''2gmzqe''
   \<and> Submission_init example_env (Reddit True) None (Some ''https://redd.it/2gmzqe'') PNone
        world0 = (Inr (unfetched_submission (Reddit True) ''2gmzqe''), world0)
   \<and> id_from_url (url_parts example_env) ''https://www.reddit.com/gallery/'' = Inl IndexError
   \<and> Submission_init example_env (Reddit True) None (Some ''https://www.reddit.com/gallery/'')
        PNone world0 = (Inl IndexError, world0)"
proof -
  have a: "id_from_url (url_parts example_env) ''https://redd.it/2gmzqe'' = Inr ''2gmzqe''"
    by (simp add: example_env_def example_url_parts_def id_from_url_def bindE_def py_get_def
        isalnum_def isalnum_char_def)
  have b: "id_from_url (url_parts example_env) ''https://www.reddit.com/gallery/''
             = Inl IndexError"
    by (simp add: example_env_def example_url_parts_def id_from_url_def bindE_def py_get_def)
  show ?thesis
    using a b
      construction [of "Some ''2gmzqe''" "Some ''https://redd.it/2gmzqe''" PNone example_env
        "Reddit True" world0 "''2gmzqe''" "''https://redd.it/2gmzqe''" IndexError]
      construction [of "Some ''2gmzqe''" "Some ''https://redd.it/2gmzqe''" PNone example_env
        "Reddit True" world0 "''2gmzqe''" "''https://www.reddit.com/gallery/''" IndexError]
    by simp
qed

text \<open>
  C4 as stated fails: with the \<open>url\<close> of a subreddit as the one argument supplied,
  construction does not succeed, it raises \<open>InvalidURL\<close>.
\<close>

theorem construction_counterexample:
  "count_list [(None :: string option) \<noteq> None,
               Some ''https://www.reddit.com/r/redditdev/'' \<noteq> None, PNone \<noteq> PNone] True = 1
   \<and> Submission_init example_env (Reddit True) None
        (Some ''https://www.reddit.com/r/redditdev/'') PNone world0 = (Inl InvalidURL, world0)"
  by (simp add: Submission_init_def setattr_defs str_truthy_def example_env_def
      example_url_parts_def id_from_url_def bindE_def py_get_def)

section \<open>Claims on moderation\<close>

text \<open>
  C8. In \<open>sticky\<close>, a \<open>Conflict\<close> raised by the request is suppressed and the call
  returns \<open>None\<close>; every other error raised by the request reaches the caller
  unchanged, and so does the result of a request that succeeds. The request is issued
  in each case.
\<close>

theorem sticky_suppresses_conflict_only:
  assumes "api_path env ''sticky_submission'' = Inr path"
    and "req = \<lparr>req_method = ''POST'', req_path = path, req_params = [],
                 req_data = [(''id'', PStr thing_fullname), (''state'', PBool state)]
                            @ (if \<not> bottom then [(''num'', PInt 1)] else [])\<rparr>"
  shows "(transport env (sent w) req = Inl Conflict \<longrightarrow>
            sticky env thing_fullname bottom state w = (Inr PNone, w\<lparr>sent := sent w @ [req]\<rparr>))
       \<and> (transport env (sent w) req = Inl e \<and> e \<noteq> Conflict \<longrightarrow>
            sticky env thing_fullname bottom state w = (Inl e, w\<lparr>sent := sent w @ [req]\<rparr>))
       \<and> (transport env (sent w) req = Inr v \<longrightarrow>
            sticky env thing_fullname bottom state w = (Inr v, w\<lparr>sent := sent w @ [req]\<rparr>))"
  using assms
  by (simp add: sticky_def except_Conflict_def post_def issue_def bindIO_def liftIO_def)

text \<open>
  The theorem at the sample transport, which reports a conflict for the sticky endpoint,
  and at a transport that reports another error.
\<close>

theorem sticky_suppresses_conflict_only_witness:
  "api_path example_env ''sticky_submission'' = Inr ''api/set_subreddit_sticky/''
   \<and> sticky example_env ''t3_2gmzqe'' True True world0 =
       (Inr PNone,
        world0\<lparr>sent := sent world0 @
          [\<lparr>req_method = ''POST'', req_path = ''api/set_subreddit_sticky/'', req_params = [],
            req_data = [(''id'', PStr ''t3_2gmzqe''), (''state'', PBool True)]\<rparr>]\<rparr>)
   \<and> TransportError 500 \<noteq> Conflict
   \<and> sticky (example_env\<lparr>transport := (\<lambda>history req. Inl (TransportError 500))\<rparr>)
        ''t3_2gmzqe'' True True world0 =
       (Inl (TransportError 500),
        world0\<lparr>sent := sent world0 @
          [\<lparr>req_method = ''POST'', req_path = ''api/set_subreddit_sticky/'', req_params = [],
            req_data = [(''id'', PStr ''t3_2gmzqe''), (''state'', PBool True)]\<rparr>]\<rparr>)"
proof -
  have a: "api_path example_env ''sticky_submission'' = Inr ''api/set_subreddit_sticky/''"
    by (simp add: api_path_def example_env_def)
  have b: "api_path (example_env\<lparr>transport := (\<lambda>history req. Inl (TransportError 500))\<rparr>)
             ''sticky_submission'' = Inr ''api/set_subreddit_sticky/''"
    by (simp add: api_path_def example_env_def)
  show ?thesis
    using a
      sticky_suppresses_conflict_only [where thing_fullname = "''t3_2gmzqe''" and bottom = True
        and state = True and w = world0 and e = "TransportError 500" and v = PNone,
        OF a refl]
      sticky_suppresses_conflict_only [where thing_fullname = "''t3_2gmzqe''" and bottom = True
        and state = True and w = world0 and e = "TransportError 500" and v = PNone,
        OF b refl]
    by (simp add: example_env_def example_transport_def)
qed

text \<open>
  C9. On a moderation class that leaves \<open>REMOVAL_MESSAGE_API\<close> unset,
  \<open>send_removal_message\<close> fails with \<open>NotImplementedError\<close> (the spec's
  UnsupportedOperationError) and issues no request. On SubmissionModeration, which sets
  it, the operation issues exactly the removal-message request to the endpoint that the
  table gives for \<open>removal_link_message\<close>.
\<close>

theorem removal_message_support:
  "(REMOVAL_MESSAGE_API cls = None \<longrightarrow>
      send_removal_message env cls thing_fullname message title type w =
        (Inl NotImplementedError, w))
   \<and> (API_PATH env ''removal_link_message'' = Some url \<longrightarrow>
      sent (snd (send_removal_message env SubmissionModeration thing_fullname message title
                   type w)) =
        sent w @ [\<lparr>req_method = ''POST'', req_path = url, req_params = [],
                   req_data = [(''json'', PStr (dumps env (PDict
                      [(''item_id'', PList [PStr thing_fullname]),
                       (''message'', PStr message),
                       (''title'', PStr title),
                       (''type'', PStr type)])))]\<rparr>])"
  by (auto simp add: send_removal_message_def throwIO_def bindIO_def liftIO_def returnIO_def
      api_path_def post_def issue_def Let_def split: sum.splits)

theorem removal_message_support_witness:
  "REMOVAL_MESSAGE_API ThingModerationMixin = None
   \<and> send_removal_message example_env ThingModerationMixin ''t3_2gmzqe'' ''removed''
        ''ignored'' ''public'' world0 = (Inl NotImplementedError, world0)
   \<and> API_PATH example_env ''removal_link_message''
        = Some ''api/v1/modactions/removal_link_message''
   \<and> sent (snd (send_removal_message example_env SubmissionModeration ''t3_2gmzqe''
                   ''removed'' ''ignored'' ''public'' world0)) =
        [\<lparr>req_method = ''POST'', req_path = ''api/v1/modactions/removal_link_message'',
          req_params = [], req_data = [(''json'', PStr ''{}'')]\<rparr>]"
proof -
  have a: "API_PATH example_env ''removal_link_message''
             = Some ''api/v1/modactions/removal_link_message''"
    by (simp add: example_env_def)
  have b: "dumps example_env = (\<lambda>v. ''{}'')" by (simp add: example_env_def)
  show ?thesis
    using a
      removal_message_support [of ThingModerationMixin example_env "''t3_2gmzqe''"
        "''removed''" "''ignored''" "''public''" world0
        "''api/v1/modactions/removal_link_message''"]
    by (simp add: b world0_def)
qed

section \<open>Hydration: results\<close>


lemma setattr_comments:
  "Submission_setattr self ''comments'' value w = (Inr (self(''comments'' \<mapsto> value)), w)"
  by (rule setattr_plain) (simp_all add: read_only_properties_def)

lemma setattr_fetched:
  "Submission_setattr self ''_fetched'' value w = (Inr (self(''_fetched'' \<mapsto> value)), w)"
  by (rule setattr_plain) (simp_all add: read_only_properties_def)

lemma bindIO_Inr_iff:
  "bindIO m f w = (Inr b, w') \<longleftrightarrow> (\<exists>a w1. m w = (Inr a, w1) \<and> f a w1 = (Inr b, w'))"
  by (auto simp: bindIO_def split: prod.splits sum.splits)

lemma liftIO_Inr_iff: "liftIO r w = (Inr a, w') \<longleftrightarrow> r = Inr a \<and> w' = w"
  by (auto simp add: liftIO_def)

lemma returnIO_iff: "returnIO a w = (r, w') \<longleftrightarrow> r = Inr a \<and> w' = w"
  by (auto simp add: returnIO_def)

lemma fetch_success:
  assumes "Submission_fetch env self w = (Inr self', w')"
  shows "\<exists>data w1 sl cl reddit cld sd submission children.
    fetch_data env self w = (Inr data, w1) \<and>
    unpack2 data = Inr (sl, cl) \<and>
    getattr self ''_reddit'' = Inr reddit \<and>
    subscript_key cl ''data'' = Inr cld \<and>
    submission_data_of sl = Inr sd \<and>
    Submission_init env reddit None None sd w1 = (Inr submission, w') \<and>
    ''comment_limit'' \<in> dom submission \<and>
    ''comment_sort'' \<in> dom submission \<and>
    Listing_children cld = Inr children \<and>
    self' = hydrated self submission children"
  using assms unfolding Submission_fetch_def
  apply (simp only: bindIO_Inr_iff liftIO_Inr_iff returnIO_iff setattr_comments setattr_fetched split_paired_Ex prod.case)
  apply (clarsimp simp add: delattr_def hydrated_def bindE_def getattr_def CommentForest_update_def split: if_splits)
  apply blast
  done

lemma fetch_steps:
  assumes "fetch_data env self w = (Inr data, w1)"
    and "unpack2 data = Inr (sl, cl)"
    and "getattr self ''_reddit'' = Inr reddit"
    and "subscript_key cl ''data'' = Inr cld"
    and "submission_data_of sl = Inr sd"
    and "Submission_init env reddit None None sd w1 = (Inr submission, w2)"
    and "''comment_limit'' \<in> dom submission"
    and "''comment_sort'' \<in> dom submission"
    and "Listing_children cld = Inr children"
  shows "Submission_fetch env self w = (Inr (hydrated self submission children), w2)"
  using assms
  by (auto simp add: Submission_fetch_def bindIO_def liftIO_def returnIO_def delattr_def
      setattr_comments setattr_fetched getattr_def bindE_def CommentForest_update_def
      hydrated_def)

lemma hydrated_frame:
  "hydrated self submission children ''comment_limit'' = self ''comment_limit''"
  "hydrated self submission children ''comment_sort'' = self ''comment_sort''"
  "hydrated self submission children ''_fetched'' = Some (PBool True)"
  "hydrated self submission children ''comments'' = Some (CommentForest children)"
  by (simp_all add: hydrated_def map_add_def)

lemma hydrated_other:
  assumes "a \<notin> {''comment_limit'', ''comment_sort'', ''_fetched'', ''comments''}"
    and "submission a = Some v"
  shows "hydrated self submission children a = Some v"
  using assms by (simp add: hydrated_def map_add_def)

lemma hydrated_idem:
  "hydrated (hydrated self submission children) submission children =
   hydrated self submission children"
  by (rule ext) (simp add: hydrated_def map_add_def split: option.splits)


lemma fetch_data_Inr:
  assumes "fetch_data env self w = (Inr data, w1)"
  shows "\<exists>flag req. self ''_reddit'' = Some (Reddit flag)
           \<and> self ''comment_limit'' \<noteq> None \<and> self ''comment_sort'' \<noteq> None
           \<and> transport env (sent w) req = Inr data \<and> w1 = w\<lparr>sent := sent w @ [req]\<rparr>"
  using assms unfolding fetch_data_def fetch_info_def
  by (auto simp add: bindIO_def liftIO_def bindE_def getattr_def request_method_def issue_def
      split: sum.splits option.splits pyval.splits prod.splits)

lemma bindIO_fst_world:
  assumes "\<And>w w'. fst (m w) = fst (m w')" and "\<And>a w w'. fst (f a w) = fst (f a w')"
  shows "fst (bindIO m f w) = fst (bindIO m f w')"
proof -
  obtain r w1 where 1: "m w = (r, w1)" by (cases "m w")
  obtain r' w1' where 2: "m w' = (r', w1')" by (cases "m w'")
  from assms(1) [of w w'] 1 2 have "r' = r" by simp
  with 1 2 assms(2) show ?thesis by (cases r) (simp_all add: bindIO_def)
qed

lemma setattr_items_fst_world:
  "fst (setattr_items self items w) = fst (setattr_items self items w')"
proof (induction items arbitrary: self w w')
  case Nil
  show ?case by (simp add: returnIO_def)
next
  case (Cons item items)
  obtain a v where item: "item = (a, v)" by (cases item)
  show ?case unfolding item setattr_items.simps
    by (rule bindIO_fst_world) (simp_all add: setattr_fst_world Cons.IH)
qed

lemma setattr_Inr:
  assumes "Submission_setattr self attribute value w = (Inr self', w')"
  shows "fst (Submission_setattr self attribute value w0) = Inr (self(attribute \<mapsto> stored attribute value))"
  using setattr_success [OF assms] assms setattr_fst_world [of self attribute "value" w0 w]
  by simp

text \<open>Replacing the client by another client does not make an assignment raise.\<close>

lemma setattr_other_client:
  assumes "Submission_setattr self attribute value w = (Inr self', w')"
  shows "fst (Submission_setattr (self(''_reddit'' \<mapsto> Reddit flag)) attribute value w0) =
           Inr ((self(''_reddit'' \<mapsto> Reddit flag))(attribute \<mapsto> stored attribute value))"
  using assms
  by (auto simp add: Submission_setattr_def io_defs stored_def getattr_def object_setattr_def
      Redditor_from_data_def Subreddit_new_def PollData_new_def warns_on_assignment_def
      warn_comment_sort_def
      split: if_splits sum.splits option.splits prod.splits)

lemma setattr_items_other_client:
  assumes "setattr_items s1 items w = (Inr fin, w1)"
    and "fin ''_reddit'' = Some (Reddit flag)"
    and "s2 = s1 \<or> s2 = s1(''_reddit'' \<mapsto> Reddit flag)"
  shows "fst (setattr_items s2 items w') = Inr fin"
  using assms
proof (induction items arbitrary: s1 s2 w w')
  case Nil
  then have "fin = s1" by (simp add: returnIO_def)
  with Nil have "s2 = fin" by (auto simp: fun_upd_idem)
  then show ?case by (simp add: returnIO_def)
next
  case (Cons item items)
  obtain a v where item: "item = (a, v)" by (cases item)
  from Cons.prems(1) obtain s1' wa where
    step: "Submission_setattr s1 a v w = (Inr s1', wa)"
    and rest: "setattr_items s1' items wa = (Inr fin, w1)"
    unfolding item setattr_items.simps bindIO_Inr_iff by blast
  have s1': "s1' = s1(a \<mapsto> stored a v)" using setattr_success [OF step] .
  let ?s2' = "s2(a \<mapsto> stored a v)"
  have step2: "fst (Submission_setattr s2 a v w') = Inr ?s2'"
  proof (cases "s2 = s1")
    case True
    then show ?thesis using setattr_Inr [OF step, of w'] by simp
  next
    case False
    with Cons.prems(3) have "s2 = s1(''_reddit'' \<mapsto> Reddit flag)" by blast
    then show ?thesis using setattr_other_client [OF step, of flag w'] by simp
  qed
  then obtain wb where step2': "Submission_setattr s2 a v w' = (Inr ?s2', wb)"
    by (cases "Submission_setattr s2 a v w'") simp
  have rel: "?s2' = s1' \<or> ?s2' = s1'(''_reddit'' \<mapsto> Reddit flag)"
    using Cons.prems(3) s1' by (cases "a = ''_reddit''") (auto simp: fun_upd_twist)
  have "fst (setattr_items ?s2' items wb) = Inr fin"
    using Cons.IH [OF rest Cons.prems(2) rel] .
  then show ?case unfolding item setattr_items.simps
    by (simp add: bindIO_def step2')
qed

lemma RedditBase_init_other_client:
  assumes "RedditBase_init s reddit d w = (Inr B, w1)"
    and "B ''_reddit'' = Some (Reddit flag)"
  shows "fst (RedditBase_init s (Reddit flag) d w') = Inr B"
proof -
  have plain: "\<And>s v w. Submission_setattr s ''_reddit'' v w = (Inr (s(''_reddit'' \<mapsto> v)), w)"
    by (rule setattr_plain) (simp_all add: read_only_properties_def)
  show ?thesis
  proof (cases "truthy d")
    case False
    with assms show ?thesis
      by (auto simp add: RedditBase_init_def bindIO_def returnIO_def plain setattr_fetched)
  next
    case True
    with assms(1) obtain items fin wa where d: "d = PDict items"
      and it: "setattr_items (s(''_reddit'' \<mapsto> reddit)) items w = (Inr fin, wa)"
      and B: "B = fin(''_fetched'' \<mapsto> PBool False)"
      by (auto simp add: RedditBase_init_def bindIO_def plain setattr_fetched throwIO_def
          split: pyval.splits prod.splits sum.splits)
    from B assms(2) have "fin ''_reddit'' = Some (Reddit flag)" by (simp split: if_splits)
    from setattr_items_other_client [OF it this, of "s(''_reddit'' \<mapsto> Reddit flag)" w']
    have "fst (setattr_items (s(''_reddit'' \<mapsto> Reddit flag)) items w') = Inr fin" by simp
    then obtain wb where "setattr_items (s(''_reddit'' \<mapsto> Reddit flag)) items w' = (Inr fin, wb)"
      by (cases "setattr_items (s(''_reddit'' \<mapsto> Reddit flag)) items w'") simp
    with True d B show ?thesis
      by (simp add: RedditBase_init_def bindIO_def plain setattr_fetched)
  qed
qed

lemma init_other_client:
  assumes "Submission_init env reddit None None d w = (Inr T, w1)"
    and "T ''_reddit'' = Some (Reddit flag)"
  shows "fst (Submission_init env (Reddit flag) None None d w') = Inr T"
proof -
  have plain: "\<And>s v w. Submission_setattr s ''_comments_by_id'' v w =
      (Inr (s(''_comments_by_id'' \<mapsto> v)), w)"
    by (rule setattr_plain) (simp_all add: read_only_properties_def)
  let ?s = "[''comment_limit'' \<mapsto> PInt 2048, ''comment_sort'' \<mapsto> PStr ''confidence'']"
  from assms(1) obtain B where dn: "d \<noteq> PNone"
    and b: "RedditBase_init ?s reddit d w = (Inr B, w1)"
    and T: "T = B(''_comments_by_id'' \<mapsto> PDict [], ''comments'' \<mapsto> CommentForest [])"
    by (auto simp add: Submission_init_def bindIO_def plain setattr_comments setattr_comment_limit
        setattr_comment_sort_unfetched str_truthy_def returnIO_def throwIO_def
        split: if_splits prod.splits sum.splits)
  from T assms(2) have "B ''_reddit'' = Some (Reddit flag)" by (simp split: if_splits)
  from RedditBase_init_other_client [OF b this, of w']
  obtain wb where "RedditBase_init ?s (Reddit flag) d w' = (Inr B, wb)"
    by (cases "RedditBase_init ?s (Reddit flag) d w'") simp
  with dn T show ?thesis
    by (simp add: Submission_init_def bindIO_def plain setattr_comments setattr_comment_limit
        setattr_comment_sort_unfetched str_truthy_def returnIO_def)
qed

lemma setattr_items_keeps:
  assumes "setattr_items s items w = (Inr fin, w1)" and "s k \<noteq> None"
  shows "fin k \<noteq> None"
  using assms
proof (induction items arbitrary: s w)
  case Nil
  then show ?case by (simp add: returnIO_def)
next
  case (Cons item items)
  obtain a v where item: "item = (a, v)" by (cases item)
  from Cons.prems(1) obtain s' wa where
    step: "Submission_setattr s a v w = (Inr s', wa)"
    and rest: "setattr_items s' items wa = (Inr fin, w1)"
    unfolding item setattr_items.simps bindIO_Inr_iff by blast
  from setattr_success [OF step] Cons.prems(2) have "s' k \<noteq> None" by simp
  from Cons.IH [OF rest this] show ?case .
qed

lemma init_has_client:
  assumes "Submission_init env reddit None None d w = (Inr T, w1)"
  shows "T ''_reddit'' \<noteq> None"
proof -
  have plain: "\<And>s a v w. a = ''_comments_by_id'' \<or> a = ''_reddit'' \<Longrightarrow>
      Submission_setattr s a v w = (Inr (s(a \<mapsto> v)), w)"
    by (rule setattr_plain) (auto simp add: read_only_properties_def)
  let ?s = "[''comment_limit'' \<mapsto> PInt 2048, ''comment_sort'' \<mapsto> PStr ''confidence'']"
  from assms(1) obtain B where
    b: "RedditBase_init ?s reddit d w = (Inr B, w1)"
    and T: "T = B(''_comments_by_id'' \<mapsto> PDict [], ''comments'' \<mapsto> CommentForest [])"
    by (auto simp add: Submission_init_def bindIO_def plain setattr_comments setattr_comment_limit
        setattr_comment_sort_unfetched str_truthy_def returnIO_def throwIO_def
        split: if_splits prod.splits sum.splits)
  have "B ''_reddit'' \<noteq> None"
  proof (cases "truthy d")
    case False
    with b show ?thesis
      by (auto simp add: RedditBase_init_def bindIO_def returnIO_def plain setattr_fetched)
  next
    case True
    with b obtain items fin wa where
      it: "setattr_items (?s(''_reddit'' \<mapsto> reddit)) items w = (Inr fin, wa)"
      and B: "B = fin(''_fetched'' \<mapsto> PBool False)"
      by (auto simp add: RedditBase_init_def bindIO_def plain setattr_fetched throwIO_def
          split: pyval.splits prod.splits sum.splits)
    from setattr_items_keeps [OF it, of "''_reddit''"] B show ?thesis by simp
  qed
  with T show ?thesis by simp
qed

lemma hydrated_client:
  "submission ''_reddit'' \<noteq> None \<Longrightarrow>
   hydrated self submission children ''_reddit'' = submission ''_reddit''"
  by (auto simp add: hydrated_def map_add_def)


lemma setattr_items_untouched:
  assumes "setattr_items s items w = (Inr fin, w1)" and "a \<notin> fst ` set items"
  shows "fin a = s a"
  using assms
proof (induction items arbitrary: s w)
  case Nil
  then show ?case by (simp add: returnIO_def)
next
  case (Cons item items)
  obtain b v where item: "item = (b, v)" by (cases item)
  from Cons.prems(1) obtain s' wa where
    step: "Submission_setattr s b v w = (Inr s', wa)"
    and rest: "setattr_items s' items wa = (Inr fin, w1)"
    unfolding item setattr_items.simps bindIO_Inr_iff by blast
  from Cons.prems(2) item have "a \<noteq> b" and "a \<notin> fst ` set items" by auto
  with Cons.IH [OF rest] setattr_success [OF step] show ?case by simp
qed

lemma setattr_items_stored:
  assumes "setattr_items s items w = (Inr fin, w1)"
    and "distinct (map fst items)" and "(a, v) \<in> set items"
  shows "fin a = Some (stored a v)"
  using assms
proof (induction items arbitrary: s w)
  case Nil
  then show ?case by simp
next
  case (Cons item items)
  obtain b u where item: "item = (b, u)" by (cases item)
  from Cons.prems(1) obtain s' wa where
    step: "Submission_setattr s b u w = (Inr s', wa)"
    and rest: "setattr_items s' items wa = (Inr fin, w1)"
    unfolding item setattr_items.simps bindIO_Inr_iff by blast
  show ?case
  proof (cases "(a, v) = (b, u)")
    case True
    with Cons.prems(2) item have "a \<notin> fst ` set items" by auto
    from setattr_items_untouched [OF rest this] setattr_success [OF step] True
    show ?thesis by simp
  next
    case False
    with Cons.prems(3) item have "(a, v) \<in> set items" by auto
    moreover from Cons.prems(2) have "distinct (map fst items)" by simp
    ultimately show ?thesis using Cons.IH [OF rest] by blast
  qed
qed

lemma init_stored:
  assumes "Submission_init env reddit None None (PDict items) w = (Inr T, w1)"
    and "distinct (map fst items)" and "(a, v) \<in> set items"
    and "a \<notin> {''_fetched'', ''_comments_by_id'', ''comments''}"
  shows "T a = Some (stored a v)"
proof -
  have plain: "\<And>s a v w. a = ''_comments_by_id'' \<or> a = ''_reddit'' \<Longrightarrow>
      Submission_setattr s a v w = (Inr (s(a \<mapsto> v)), w)"
    by (rule setattr_plain) (auto simp add: read_only_properties_def)
  let ?s = "[''comment_limit'' \<mapsto> PInt 2048, ''comment_sort'' \<mapsto> PStr ''confidence'']"
  from assms(3) have ne: "items \<noteq> []" by auto
  from assms(1) obtain B where
    b: "RedditBase_init ?s reddit (PDict items) w = (Inr B, w1)"
    and T: "T = B(''_comments_by_id'' \<mapsto> PDict [], ''comments'' \<mapsto> CommentForest [])"
    by (auto simp add: Submission_init_def bindIO_def plain setattr_comments setattr_comment_limit
        setattr_comment_sort_unfetched str_truthy_def returnIO_def throwIO_def
        split: if_splits prod.splits sum.splits)
  from b ne obtain fin wa where
    it: "setattr_items (?s(''_reddit'' \<mapsto> reddit)) items w = (Inr fin, wa)"
    and B: "B = fin(''_fetched'' \<mapsto> PBool False)"
    by (auto simp add: RedditBase_init_def bindIO_def plain setattr_fetched
        split: prod.splits sum.splits)
  from setattr_items_stored [OF it assms(2,3)] B T assms(4) show ?thesis by simp
qed

lemma setattr_other:
  assumes "self ''_reddit'' = Some (Reddit flag)"
    and "attribute \<notin> {''author'', ''subreddit'', ''poll_data''}"
    and "attribute \<notin> set read_only_properties"
  shows "fst (Submission_setattr self attribute value w) = Inr (self(attribute \<mapsto> value))"
  using assms
  by (auto simp add: Submission_setattr_def io_defs warns_on_assignment_def object_setattr_def
      warn_comment_sort_def split: option.splits)

section \<open>The sample fetch\<close>

lemma example_fetch_data:
  "fetch_data example_env example_unfetched world0 = (Inr example_response, world1)"
  by (simp add: fetch_data_def fetch_info_def bindIO_def liftIO_def bindE_def getattr_def
      api_path_def request_method_def issue_def example_env_def example_unfetched_def
      unfetched_submission_def example_transport_def world0_def world1_def example_request_def)

lemma example_unpack:
  "unpack2 example_response = Inr (example_submission_listing, example_comment_listing)"
  by (simp add: example_response_def)

lemma example_submission_data_of:
  "submission_data_of example_submission_listing = Inr example_submission_data"
  by (simp add: submission_data_of_def example_submission_listing_def bindE_def py_get_def)

lemma example_init:
  "Submission_init example_env (Reddit True) None None example_submission_data w =
     (Inr example_transient, w)"
  by (simp add: Submission_init_def RedditBase_init_def str_truthy_def example_submission_data_def
      example_transient_def setattr_defs Redditor_from_data_def Subreddit_new_def)

lemma example_fetch:
  "Submission_fetch example_env example_unfetched world0 = (Inr example_hydrated, world1)"
  unfolding example_hydrated_def
proof (rule fetch_steps [OF example_fetch_data example_unpack _ _ example_submission_data_of
      example_init])
  show "getattr example_unfetched ''_reddit'' = Inr (Reddit True)"
    by (simp add: getattr_def example_unfetched_def unfetched_submission_def)
  show "subscript_key example_comment_listing ''data'' = Inr example_comment_data"
    by (simp add: example_comment_listing_def)
  show "''comment_limit'' \<in> dom example_transient"
    by (simp add: example_transient_def)
  show "''comment_sort'' \<in> dom example_transient"
    by (simp add: example_transient_def)
  show "Listing_children example_comment_data = Inr [PStr ''first reply'']"
    by (simp add: Listing_children_def example_comment_data_def)
qed

lemma example_refetch_data:
  "fetch_data example_env example_hydrated world1 =
     (Inr example_response, world1\<lparr>sent := sent world1 @ [example_request]\<rparr>)"
  by (simp add: fetch_data_def fetch_info_def bindIO_def liftIO_def bindE_def getattr_def
      api_path_def request_method_def issue_def example_env_def example_hydrated_def
      hydrated_def map_add_def example_transient_def example_unfetched_def
      unfetched_submission_def example_transport_def world1_def example_request_def)

section \<open>Claims on hydration\<close>

text \<open>
  C6. When \<open>_fetch\<close> completes, \<open>comment_limit\<close> and \<open>comment_sort\<close> hold the values
  they held before the fetch (and they did hold values), and the fetched flag is true.
\<close>

theorem fetch_keeps_ordering_parameters:
  assumes "Submission_fetch env self w = (Inr self', w')"
  shows "self' ''comment_limit'' = self ''comment_limit''
       \<and> self' ''comment_sort'' = self ''comment_sort''
       \<and> self ''comment_limit'' \<noteq> None \<and> self ''comment_sort'' \<noteq> None
       \<and> self' ''_fetched'' = Some (PBool True)"
proof -
  from fetch_success [OF assms] obtain data w1 submission children where
    d: "fetch_data env self w = (Inr data, w1)"
    and s: "self' = hydrated self submission children" by blast
  from fetch_data_Inr [OF d] s show ?thesis by (auto simp add: hydrated_frame)
qed

text \<open>
  The sample submission had \<open>comment_sort\<close> set to \<open>new\<close> before the fetch; the transient
  submission built from the response carries the default \<open>confidence\<close>.
\<close>

theorem fetch_keeps_ordering_parameters_witness:
  "Submission_fetch example_env example_unfetched world0 = (Inr example_hydrated, world1)
   \<and> example_unfetched ''comment_sort'' = Some (PStr ''new'')
   \<and> example_transient ''comment_sort'' = Some (PStr ''confidence'')
   \<and> example_hydrated ''comment_sort'' = Some (PStr ''new'')
   \<and> example_hydrated ''comment_limit'' = Some (PInt 2048)
   \<and> example_hydrated ''_fetched'' = Some (PBool True)"
proof -
  have a: "example_unfetched ''comment_sort'' = Some (PStr ''new'')"
    "example_unfetched ''comment_limit'' = Some (PInt 2048)"
    "example_transient ''comment_sort'' = Some (PStr ''confidence'')"
    by (simp_all add: example_unfetched_def unfetched_submission_def example_transient_def)
  show ?thesis
    using a example_fetch fetch_keeps_ordering_parameters [OF example_fetch] by simp
qed

text \<open>
  C7. When \<open>_fetch\<close> has completed and the retrieval of a second call returns the same
  record as that of the first, the second call completes and leaves the submission
  field for field as the first call left it.
\<close>

theorem fetch_idempotent:
  assumes "Submission_fetch env self w = (Inr self1, w1)"
    and "fetch_data env self w = (Inr data, wa)"
    and "fetch_data env self1 w1 = (Inr data, wb)"
  shows "fst (Submission_fetch env self1 w1) = Inr self1"
proof -
  from fetch_success [OF assms(1)]
  obtain data' wa' sl cl reddit cld sd submission children where
    f: "fetch_data env self w = (Inr data', wa')"
    and u': "unpack2 data' = Inr (sl, cl)"
    and s: "subscript_key cl ''data'' = Inr cld"
    and d: "submission_data_of sl = Inr sd"
    and i': "Submission_init env reddit None None sd wa' = (Inr submission, w1)"
    and cl: "''comment_limit'' \<in> dom submission"
    and cs: "''comment_sort'' \<in> dom submission"
    and ch: "Listing_children cld = Inr children"
    and self1: "self1 = hydrated self submission children"
    by blast
  from f assms(2) have "data' = data" and "wa' = wa" by simp_all
  with u' i' have u: "unpack2 data = Inr (sl, cl)"
    and i: "Submission_init env reddit None None sd wa = (Inr submission, w1)"
    by simp_all
  from fetch_data_Inr [OF assms(3)] obtain flag where
    "self1 ''_reddit'' = Some (Reddit flag)" by blast
  with self1 hydrated_client [of submission self children] init_has_client [OF i]
  have r: "submission ''_reddit'' = Some (Reddit flag)" by simp
  with self1 hydrated_client [of submission self children]
  have g: "getattr self1 ''_reddit'' = Inr (Reddit flag)" by (simp add: getattr_def)
  from init_other_client [OF i r, of wb] obtain w2 where
    i2: "Submission_init env (Reddit flag) None None sd wb = (Inr submission, w2)"
    by (cases "Submission_init env (Reddit flag) None None sd wb") simp
  from fetch_steps [OF assms(3) u g s d i2 cl cs ch] self1 show ?thesis
    by (simp add: hydrated_idem)
qed

theorem fetch_idempotent_witness:
  "Submission_fetch example_env example_unfetched world0 = (Inr example_hydrated, world1)
   \<and> fetch_data example_env example_unfetched world0 = (Inr example_response, world1)
   \<and> fetch_data example_env example_hydrated world1 =
       (Inr example_response, world1\<lparr>sent := sent world1 @ [example_request]\<rparr>)
   \<and> fst (Submission_fetch example_env example_hydrated world1) = Inr example_hydrated"
  using example_fetch example_fetch_data example_refetch_data
    fetch_idempotent [OF example_fetch example_fetch_data example_refetch_data]
  by simp

text \<open>
  C5. On a submission that holds its client, an assignment to \<open>author\<close>, \<open>subreddit\<close>
  or \<open>poll_data\<close> stores the Redditor, Subreddit or PollData object built from the
  assigned value, not the value; an assignment to any other field (a name that is not a
  read-only property of the class) stores the value as it is. The same holds for the
  fields of the record that a completed \<open>_fetch\<close> merges in: every field of the record
  (other than \<open>comment_limit\<close>, \<open>comment_sort\<close>, \<open>_fetched\<close>, \<open>_comments_by_id\<close> and
  \<open>comments\<close>, which \<open>_fetch\<close> and the constructor set themselves) ends up stored as a
  direct assignment would store it.
\<close>

theorem attribute_normalisation:
  assumes "self ''_reddit'' = Some (Reddit flag)"
  shows "Submission_setattr self ''author'' v w =
           (Inr (self(''author'' \<mapsto> Redditor v)), w)
       \<and> Submission_setattr self ''subreddit'' v w =
           (Inr (self(''subreddit'' \<mapsto> Subreddit v)), w)
       \<and> Submission_setattr self ''poll_data'' v w =
           (Inr (self(''poll_data'' \<mapsto> PollData v)), w)
       \<and> (attribute \<notin> {''author'', ''subreddit'', ''poll_data''}
            \<and> attribute \<notin> set read_only_properties \<longrightarrow>
          fst (Submission_setattr self attribute v w) = Inr (self(attribute \<mapsto> v)))
       \<and> (Submission_fetch env self w = (Inr self', w')
            \<and> fetch_data env self w = (Inr data, wa)
            \<and> unpack2 data = Inr (submission_listing, comment_listing)
            \<and> submission_data_of submission_listing = Inr (PDict items)
            \<and> distinct (map fst items) \<and> (attribute, v) \<in> set items
            \<and> attribute \<notin> {''comment_limit'', ''comment_sort'', ''_fetched'',
                             ''_comments_by_id'', ''comments''} \<longrightarrow>
          self' attribute = Some (stored attribute v)
          \<and> stored ''author'' v = Redditor v
          \<and> stored ''subreddit'' v = Subreddit v
          \<and> stored ''poll_data'' v = PollData v)"
proof (intro conjI impI)
  show "Submission_setattr self ''author'' v w =
          (Inr (self(''author'' \<mapsto> Redditor v)), w)"
    using assms by (rule setattr_author)
  show "Submission_setattr self ''subreddit'' v w =
          (Inr (self(''subreddit'' \<mapsto> Subreddit v)), w)"
    using assms by (rule setattr_subreddit)
  show "Submission_setattr self ''poll_data'' v w =
          (Inr (self(''poll_data'' \<mapsto> PollData v)), w)"
    using assms by (rule setattr_poll_data)
next
  assume "attribute \<notin> {''author'', ''subreddit'', ''poll_data''}
            \<and> attribute \<notin> set read_only_properties"
  with assms show "fst (Submission_setattr self attribute v w) =
      Inr (self(attribute \<mapsto> v))"
    by (intro setattr_other) auto
next
  assume h: "Submission_fetch env self w = (Inr self', w')
            \<and> fetch_data env self w = (Inr data, wa)
            \<and> unpack2 data = Inr (submission_listing, comment_listing)
            \<and> submission_data_of submission_listing = Inr (PDict items)
            \<and> distinct (map fst items) \<and> (attribute, v) \<in> set items
            \<and> attribute \<notin> {''comment_limit'', ''comment_sort'', ''_fetched'',
                             ''_comments_by_id'', ''comments''}"
  from fetch_success [OF h [THEN conjunct1]] h
  obtain reddit submission children where
    i: "Submission_init env reddit None None (PDict items) wa = (Inr submission, w')"
    and s: "self' = hydrated self submission children"
    by auto
  from h have "submission attribute = Some (stored attribute v)"
    by (intro init_stored [OF i]) auto
  with h s hydrated_other [of attribute submission "stored attribute v" self children]
  show "self' attribute = Some (stored attribute v)"
    by simp
qed (simp_all add: stored_def)

theorem attribute_normalisation_witness:
  "example_unfetched ''_reddit'' = Some (Reddit True)
   \<and> Submission_setattr example_unfetched ''author'' (PStr ''bboe'') world0 =
       (Inr (example_unfetched(''author'' \<mapsto> Redditor (PStr ''bboe''))), world0)
   \<and> ''title'' \<notin> set read_only_properties
   \<and> fst (Submission_setattr example_unfetched ''title'' (PStr ''praw_https'') world0) =
       Inr (example_unfetched(''title'' \<mapsto> PStr ''praw_https''))
   \<and> Submission_fetch example_env example_unfetched world0 = (Inr example_hydrated, world1)
   \<and> example_hydrated ''author'' = Some (Redditor (PStr ''bboe''))
   \<and> example_hydrated ''subreddit'' = Some (Subreddit (PStr ''redditdev''))
   \<and> example_hydrated ''title'' = Some (PStr ''praw_https'')"
proof -
  have a: "example_unfetched ''_reddit'' = Some (Reddit True)"
    by (simp add: example_unfetched_def unfetched_submission_def)
  have b: "submission_data_of example_submission_listing =
      Inr (PDict [(''id'', PStr ''2gmzqe''), (''author'', PStr ''bboe''),
                  (''subreddit'', PStr ''redditdev''), (''title'', PStr ''praw_https'')])"
    using example_submission_data_of by (simp add: example_submission_data_def)
  note t = attribute_normalisation [where self = example_unfetched and flag = True
      and w = world0 and env = example_env
      and self' = example_hydrated and w' = world1 and data = example_response and wa = world1
      and submission_listing = example_submission_listing
      and comment_listing = example_comment_listing
      and items = "[(''id'', PStr ''2gmzqe''), (''author'', PStr ''bboe''),
                  (''subreddit'', PStr ''redditdev''), (''title'', PStr ''praw_https'')]",
      OF a]
  show ?thesis
    using a b example_fetch example_fetch_data example_unpack
      t [where v = "PStr ''bboe''" and attribute = "''author''"]
      t [where v = "PStr ''redditdev''" and attribute = "''subreddit''"]
      t [where v = "PStr ''praw_https''" and attribute = "''title''"]
    by (simp add: stored_def read_only_properties_def)
qed

end
